theory Spec2Isabelle
  imports Main
begin

section \<open>Values crossing the loader's boundary\<close>

text \<open>
  The repository holds three versions of the same adapter, all named \<open>yamlLoader\<close>:
  \<^item> \<^verbatim>\<open>src/src/yaml-loader.ts\<close> (written against \<^verbatim>\<open>@ghii/ghii\<close>), which tests the
    existence of the path when the factory is called;
  \<^item> \<^verbatim>\<open>src/unnamed/part_000\<close> (written against \<^verbatim>\<open>@ghii/ghii-v2\<close>), which tests it on
    every invocation of the returned loader and goes on to \<^verbatim>\<open>stat\<close> when the test fails
    and \<^verbatim>\<open>throwOnError\<close> is unset;
  \<^item> the documented copy at lines 239--299 of \<^verbatim>\<open>src/src/__test__/yaml-loader.test.ts\<close>,
    which differs from \<^verbatim>\<open>part_000\<close> in one statement: it returns \<^verbatim>\<open>{}\<close> after a failed
    existence test.
  They are embedded as \<open>yamlLoader\<close>/\<open>yamlFileLoader\<close>,
  \<open>yamlLoader_v2\<close>/\<open>yamlFileLoader_v2\<close> and \<open>yamlLoader_doc\<close>/\<open>yamlFileLoader_doc\<close>.

  The parsed document is whatever \<^verbatim>\<open>js-yaml\<close> returns; the loader never inspects it. The
  empty object literal \<^verbatim>\<open>{}\<close> is \<open>YMap []\<close>. Numeric scalars are kept as integers: no
  function below looks inside a document.
\<close>

datatype yaml =
    YUndefined
  | YNull
  | YBool bool
  | YNum int
  | YStr string
  | YSeq "yaml list"
  | YMap "(string \<times> yaml) list"

text \<open>
  Anything can be thrown in JavaScript. The catch block only distinguishes instances of
  \<^verbatim>\<open>Error\<close>, whose \<^verbatim>\<open>message\<close> it reads, from every other value.
\<close>

datatype thrown = JsError (message: string) | NonError

text \<open>
  The first argument of the logger is either an object literal \<^verbatim>\<open>{ msg: ... }\<close> built by
  the loader or the value caught by the catch block.
\<close>

datatype log_arg = Marker string | Caught thrown

text \<open>The only part of \<^verbatim>\<open>fs.Stats\<close> the loader reads is \<^verbatim>\<open>isFile()\<close>.\<close>

datatype stats = Stats (isFile: bool)

text \<open>
  Calls to the collaborators of the module, in the order in which they are made.
  \<open>RmSync\<close> and \<open>CopyFileSync\<close> are the two mutating filesystem operations used in the
  repository (by its test-suite); \<open>YamlParse\<close> stands for \<^verbatim>\<open>yaml.safeLoad\<close> in
  \<^verbatim>\<open>yaml-loader.ts\<close> and for \<^verbatim>\<open>yaml.load\<close> in the two later versions. A \<open>Logger\<close>
  entry records that the logger was called, whether it then returned or threw.
\<close>

datatype call =
    PathJoin "string list"
  | ExistsSync string
  | Stat string
  | ReadFile string
  | YamlParse string
  | Logger log_arg string
  | RmSync string
  | CopyFileSync string string

fun fs_call :: "call \<Rightarrow> bool" where
  "fs_call (ExistsSync p) = True"
| "fs_call (Stat p) = True"
| "fs_call (ReadFile p) = True"
| "fs_call (RmSync p) = True"
| "fs_call (CopyFileSync p q) = True"
| "fs_call (PathJoin ts) = False"
| "fs_call (YamlParse s) = False"
| "fs_call (Logger a m) = False"

fun fs_mutation :: "call \<Rightarrow> bool" where
  "fs_mutation (RmSync p) = True"
| "fs_mutation (CopyFileSync p q) = True"
| "fs_mutation (PathJoin ts) = False"
| "fs_mutation (ExistsSync p) = False"
| "fs_mutation (Stat p) = False"
| "fs_mutation (ReadFile p) = False"
| "fs_mutation (YamlParse s) = False"
| "fs_mutation (Logger a m) = False"

fun is_logger :: "call \<Rightarrow> bool" where
  "is_logger (Logger a m) = True"
| "is_logger (PathJoin ts) = False"
| "is_logger (ExistsSync p) = False"
| "is_logger (Stat p) = False"
| "is_logger (ReadFile p) = False"
| "is_logger (YamlParse s) = False"
| "is_logger (RmSync p) = False"
| "is_logger (CopyFileSync p q) = False"

fun is_path_join :: "call \<Rightarrow> bool" where
  "is_path_join (PathJoin ts) = True"
| "is_path_join (ExistsSync p) = False"
| "is_path_join (Stat p) = False"
| "is_path_join (ReadFile p) = False"
| "is_path_join (YamlParse s) = False"
| "is_path_join (Logger a m) = False"
| "is_path_join (RmSync p) = False"
| "is_path_join (CopyFileSync p q) = False"

section \<open>The environment\<close>

text \<open>
  \<^verbatim>\<open>path.join\<close> and the YAML parser are library primitives and are parameters of the
  model. The parser either returns a document or throws.
\<close>

record platform =
  path_join :: "string list \<Rightarrow> string"
  yaml_load :: "string \<Rightarrow> thrown + yaml"

text \<open>
  What the filesystem answers to the three queries the loader makes. The three answers are
  independent: between \<^verbatim>\<open>existsSync\<close>, the awaited \<^verbatim>\<open>stat\<close> and the awaited
  \<^verbatim>\<open>readFile\<close> the file may be created, replaced or removed by somebody else, so a view in
  which \<^verbatim>\<open>existsSync\<close> says yes and \<^verbatim>\<open>stat\<close> throws is a possible one.
\<close>

record fs_view =
  existsSync :: "string \<Rightarrow> bool"
  stat :: "string \<Rightarrow> thrown + stats"
  readFile :: "string \<Rightarrow> thrown + string"

text \<open>
  A quiescent filesystem, for concrete runs: a path is absent, a regular file with its
  text, or a directory. On such a filesystem the three queries agree with each other. The
  error texts are Node's without the system call and the path that Node appends.
\<close>

datatype node = RegularFile string | Directory

definition fs_of :: "(string \<times> node) list \<Rightarrow> fs_view" where
  "fs_of entries =
     \<lparr> existsSync = (\<lambda>p. map_of entries p \<noteq> None),
       stat = (\<lambda>p. case map_of entries p of
                      None \<Rightarrow> Inl (JsError ''ENOENT: no such file or directory'')
                    | Some (RegularFile c) \<Rightarrow> Inr (Stats True)
                    | Some Directory \<Rightarrow> Inr (Stats False)),
       readFile = (\<lambda>p. case map_of entries p of
                      None \<Rightarrow> Inl (JsError ''ENOENT: no such file or directory'')
                    | Some (RegularFile c) \<Rightarrow> Inr c
                    | Some Directory \<Rightarrow> Inl (JsError ''EISDIR: illegal operation on a directory'')) \<rparr>"

section \<open>Configuration and closure\<close>

text \<open>
  \<^verbatim>\<open>throwOnError\<close> is an optional boolean, tested with \<^verbatim>\<open>if (throwOnError)\<close>: an omitted
  flag is falsy.

  \<^verbatim>\<open>logger\<close> is the caller's function: it returns (\<open>None\<close>) or throws (\<open>Some\<close> of what it
  throws). Its answer is taken to depend on its two arguments; within one invocation no two
  calls have the same arguments, so every combination of returning and throwing calls is
  covered. An omitted logger is replaced by \<^verbatim>\<open>(err, message) => console.log(message, err)\<close>,
  which returns.

  The returned closure captures \<^verbatim>\<open>sourcePath\<close> next to the two destructured parameters.
  The default of the logger is applied where the closure's logger is called
  (\<open>resolve_logger\<close>), which gives the same function as applying it once in the factory.
\<close>

type_synonym logger_fn = "log_arg \<Rightarrow> string \<Rightarrow> thrown option"

record config =
  throwOnError :: "bool option"
  logger :: "logger_fn option"

record loader = config +
  sourcePath :: string

definition truthy :: "bool option \<Rightarrow> bool" where
  "truthy b = (b = Some True)"

definition console_log :: logger_fn where
  "console_log err msg = None"

definition resolve_logger :: "logger_fn option \<Rightarrow> logger_fn" where
  "resolve_logger l = (case l of None \<Rightarrow> console_log | Some f \<Rightarrow> f)"

type_synonym 'a run = "(thrown + 'a) \<times> call list"

section \<open>The code shared by the versions\<close>

text \<open>
  Lines 26--27 of \<^verbatim>\<open>yaml-loader.ts\<close>, lines 31--34 of \<^verbatim>\<open>part_000\<close>: read the file, parse
  the text. \<open>t\<close> is the trace so far.
\<close>

definition read_and_parse :: "platform \<Rightarrow> string \<Rightarrow> fs_view \<Rightarrow> call list \<Rightarrow> yaml run" where
  "read_and_parse P sp fs t =
     (case readFile fs sp of
        Inl err \<Rightarrow> (Inl err, t @ [ReadFile sp])
      | Inr yamlContent \<Rightarrow> (yaml_load P yamlContent, t @ [ReadFile sp, YamlParse yamlContent]))"

text \<open>
  The three message templates: \<^verbatim>\<open>`${sourcePath} 404`\<close>,
  \<^verbatim>\<open>`Source ${sourcePath} is not a file`\<close>, and the one built by the catch block (line 31,
  resp. 48), which reads the \<^verbatim>\<open>message\<close> of an \<^verbatim>\<open>Error\<close> and takes the empty string for
  anything else.
\<close>

definition not_found_msg :: "string \<Rightarrow> string" where
  "not_found_msg sp = sp @ '' 404''"

definition not_a_file_msg :: "string \<Rightarrow> string" where
  "not_a_file_msg sp = ''Source '' @ sp @ '' is not a file''"

definition catch_msg :: "string \<Rightarrow> thrown \<Rightarrow> string" where
  "catch_msg sp err =
     ''FILE DELETED OR A DIRECTORY-> '' @ sp @ '' 404: '' @
       (case err of JsError m \<Rightarrow> m | NonError \<Rightarrow> [])"

text \<open>
  The catch block (lines 30--35, resp. 47--52), entered with the caught value. Nothing
  guards its logger call: what the logger throws leaves the invocation.
\<close>

definition catch_block :: "loader \<Rightarrow> thrown \<Rightarrow> call list \<Rightarrow> yaml run" where
  "catch_block ld err t =
     (let msg = catch_msg (sourcePath ld) err;
          t' = t @ [Logger (Caught err) msg]
      in case resolve_logger (logger ld) (Caught err) msg of
           Some thrown_by_logger \<Rightarrow> (Inl thrown_by_logger, t')
         | None \<Rightarrow>
             if truthy (throwOnError ld) then (Inl (JsError msg), t') else (Inr (YMap []), t'))"

section \<open>\<^verbatim>\<open>src/src/yaml-loader.ts\<close>\<close>

definition yamlLoader :: "platform \<Rightarrow> config \<Rightarrow> string list \<Rightarrow> fs_view \<Rightarrow> loader run" where
  "yamlLoader P cfg filePathToken fs =
     (let sp = path_join P filePathToken;
          ld = \<lparr> throwOnError = throwOnError cfg, logger = logger cfg, sourcePath = sp \<rparr>;
          t = [PathJoin filePathToken, ExistsSync sp]
      in if \<not> existsSync fs sp then
           (let t' = t @ [Logger (Marker ''not exist'') (not_found_msg sp)]
            in case resolve_logger (logger cfg) (Marker ''not exist'') (not_found_msg sp) of
                 Some thrown_by_logger \<Rightarrow> (Inl thrown_by_logger, t')
               | None \<Rightarrow>
                   if truthy (throwOnError cfg) then (Inl (JsError (not_found_msg sp)), t')
                   else (Inr ld, t'))
         else (Inr ld, t))"

text \<open>The body of the \<^verbatim>\<open>try\<close> (lines 24--29): a directory is reported by throwing.\<close>

definition yamlFileLoader_try :: "platform \<Rightarrow> loader \<Rightarrow> fs_view \<Rightarrow> yaml run" where
  "yamlFileLoader_try P ld fs =
     (let sp = sourcePath ld
      in case stat fs sp of
           Inl err \<Rightarrow> (Inl err, [Stat sp])
         | Inr fstat \<Rightarrow>
             if isFile fstat then read_and_parse P sp fs [Stat sp]
             else (Inl (JsError (not_a_file_msg sp)), [Stat sp]))"

definition yamlFileLoader :: "platform \<Rightarrow> loader \<Rightarrow> fs_view \<Rightarrow> yaml run" where
  "yamlFileLoader P ld fs =
     (case yamlFileLoader_try P ld fs of
        (Inr doc, t) \<Rightarrow> (Inr doc, t)
      | (Inl err, t) \<Rightarrow> catch_block ld err t)"

section \<open>\<^verbatim>\<open>src/unnamed/part_000\<close>\<close>

definition yamlLoader_v2 :: "platform \<Rightarrow> config \<Rightarrow> string list \<Rightarrow> fs_view \<Rightarrow> loader run" where
  "yamlLoader_v2 P cfg filePathToken fs =
     (let sp = path_join P filePathToken
      in (Inr \<lparr> throwOnError = throwOnError cfg, logger = logger cfg, sourcePath = sp \<rparr>,
          [PathJoin filePathToken]))"

text \<open>
  The body of the \<^verbatim>\<open>try\<close> (lines 29--46). A directory is logged here; what the logger
  throws, and with \<^verbatim>\<open>throwOnError\<close> the error thrown at line 44, is thrown from inside the
  \<^verbatim>\<open>try\<close> and so reaches the catch block of the same statement.
\<close>

definition yamlFileLoader_v2_try :: "platform \<Rightarrow> loader \<Rightarrow> fs_view \<Rightarrow> call list \<Rightarrow> yaml run" where
  "yamlFileLoader_v2_try P ld fs t =
     (let sp = sourcePath ld
      in case stat fs sp of
           Inl err \<Rightarrow> (Inl err, t @ [Stat sp])
         | Inr fstat \<Rightarrow>
             if isFile fstat then read_and_parse P sp fs (t @ [Stat sp])
             else
               (let msg = not_a_file_msg sp;
                    t' = t @ [Stat sp, Logger (Marker msg) msg]
                in case resolve_logger (logger ld) (Marker msg) msg of
                     Some thrown_by_logger \<Rightarrow> (Inl thrown_by_logger, t')
                   | None \<Rightarrow>
                       if truthy (throwOnError ld) then (Inl (JsError msg), t')
                       else (Inr (YMap []), t')))"

definition yamlFileLoader_v2_try_catch :: "platform \<Rightarrow> loader \<Rightarrow> fs_view \<Rightarrow> call list \<Rightarrow> yaml run" where
  "yamlFileLoader_v2_try_catch P ld fs t =
     (case yamlFileLoader_v2_try P ld fs t of
        (Inr doc, t') \<Rightarrow> (Inr doc, t')
      | (Inl err, t') \<Rightarrow> catch_block ld err t')"

text \<open>
  The existence test (lines 19--27) stands before the \<^verbatim>\<open>try\<close>: what its logger call
  throws leaves the invocation at once.
\<close>

definition yamlFileLoader_v2 :: "platform \<Rightarrow> loader \<Rightarrow> fs_view \<Rightarrow> yaml run" where
  "yamlFileLoader_v2 P ld fs =
     (let sp = sourcePath ld
      in if \<not> existsSync fs sp then
           (let t = [ExistsSync sp, Logger (Marker ''not exist'') (not_found_msg sp)]
            in case resolve_logger (logger ld) (Marker ''not exist'') (not_found_msg sp) of
                 Some thrown_by_logger \<Rightarrow> (Inl thrown_by_logger, t)
               | None \<Rightarrow>
                   if truthy (throwOnError ld) then (Inl (JsError (not_found_msg sp)), t)
                   else yamlFileLoader_v2_try_catch P ld fs t)
         else yamlFileLoader_v2_try_catch P ld fs [ExistsSync sp])"

section \<open>The documented copy in \<^verbatim>\<open>src/src/__test__/yaml-loader.test.ts\<close>\<close>

text \<open>
  Lines 239--299. The factory (lines 239--249) is that of \<^verbatim>\<open>part_000\<close>. The \<^verbatim>\<open>try\<close>
  statement (lines 269--297) is that of \<^verbatim>\<open>part_000\<close>, statement for statement, and is
  embedded by the same function. The existence test (lines 258--268) ends with
  \<^verbatim>\<open>return {} as T\<close>.
\<close>

definition yamlLoader_doc :: "platform \<Rightarrow> config \<Rightarrow> string list \<Rightarrow> fs_view \<Rightarrow> loader run" where
  "yamlLoader_doc P cfg filePathToken fs =
     (let sp = path_join P filePathToken
      in (Inr \<lparr> throwOnError = throwOnError cfg, logger = logger cfg, sourcePath = sp \<rparr>,
          [PathJoin filePathToken]))"

definition yamlFileLoader_doc :: "platform \<Rightarrow> loader \<Rightarrow> fs_view \<Rightarrow> yaml run" where
  "yamlFileLoader_doc P ld fs =
     (let sp = sourcePath ld
      in if \<not> existsSync fs sp then
           (let t = [ExistsSync sp, Logger (Marker ''not exist'') (not_found_msg sp)]
            in case resolve_logger (logger ld) (Marker ''not exist'') (not_found_msg sp) of
                 Some thrown_by_logger \<Rightarrow> (Inl thrown_by_logger, t)
               | None \<Rightarrow>
                   if truthy (throwOnError ld) then (Inl (JsError (not_found_msg sp)), t)
                   else (Inr (YMap []), t))
         else yamlFileLoader_v2_try_catch P ld fs [ExistsSync sp])"

section \<open>Callers\<close>

text \<open>
  An invocation as a step on the closure: its result, and the captured bindings as they
  are after the call. The bindings a body could change are \<^verbatim>\<open>sourcePath\<close> (a \<^verbatim>\<open>const\<close>)
  and the destructured parameters \<^verbatim>\<open>throwOnError\<close> and \<^verbatim>\<open>logger\<close>; no version declares
  another one outside the returned function, and no body holds an assignment. So each step
  hands the closure on as it got it.
\<close>

type_synonym step = "loader \<Rightarrow> fs_view \<Rightarrow> yaml run \<times> loader"

definition yamlFileLoader_step :: "platform \<Rightarrow> step" where
  "yamlFileLoader_step P ld fs = (yamlFileLoader P ld fs, ld)"

definition yamlFileLoader_v2_step :: "platform \<Rightarrow> step" where
  "yamlFileLoader_v2_step P ld fs = (yamlFileLoader_v2 P ld fs, ld)"

definition yamlFileLoader_doc_step :: "platform \<Rightarrow> step" where
  "yamlFileLoader_doc_step P ld fs = (yamlFileLoader_doc P ld fs, ld)"

text \<open>
  The configuration manager calls one loader again and again; every call meets the
  filesystem as it is at that moment and the closure as the call before left it.
\<close>

fun invoke_all :: "step \<Rightarrow> loader \<Rightarrow> fs_view list \<Rightarrow> yaml run list \<times> loader" where
  "invoke_all f ld [] = ([], ld)"
| "invoke_all f ld (fs # rest) =
     (case f ld fs of
        (r, ld') \<Rightarrow> (case invoke_all f ld' rest of (rs, ld'') \<Rightarrow> (r # rs, ld'')))"


definition logger_calls :: "call list \<Rightarrow> call list" where
  "logger_calls t = filter is_logger t"

definition other_calls :: "call list \<Rightarrow> call list" where
  "other_calls t = filter (\<lambda>c. \<not> is_logger c) t"

section \<open>The platform's path join\<close>

text \<open>
  Modelled from the spec: the platform path-join rule, which is Node's \<^verbatim>\<open>path.join\<close> and
  not part of the repository. The spec describes it as "segments concatenated with the
  platform directory separator, normalizing redundant separators". This is the rule of
  \<^verbatim>\<open>path.posix.join\<close>: the non-empty segments are concatenated with \<^verbatim>\<open>/\<close> and the result is
  normalized, which drops empty and \<^verbatim>\<open>.\<close> components, resolves \<^verbatim>\<open>..\<close> against the
  component before it, and keeps a leading and a trailing separator. It is used for
  concrete runs and for the example of the spec; every general statement below holds for an
  arbitrary \<open>path_join\<close>.
\<close>

fun concat_with_sep :: "string list \<Rightarrow> string" where
  "concat_with_sep [] = []"
| "concat_with_sep [s] = s"
| "concat_with_sep (s # r # rest) = s @ ''/'' @ concat_with_sep (r # rest)"

fun split_sep :: "string \<Rightarrow> string list" where
  "split_sep [] = [[]]"
| "split_sep (c # cs) =
     (if c = CHR ''/'' then [] # split_sep cs
      else (case split_sep cs of [] \<Rightarrow> [[c]] | s # ss \<Rightarrow> (c # s) # ss))"

text \<open>
  \<open>kept\<close> holds the components kept so far, the last one first. \<open>allowAboveRoot\<close> is set
  for a relative path, where a \<^verbatim>\<open>..\<close> that has nothing to resolve against is kept.
\<close>

fun normalize_components :: "bool \<Rightarrow> string list \<Rightarrow> string list \<Rightarrow> string list" where
  "normalize_components allowAboveRoot kept [] = rev kept"
| "normalize_components allowAboveRoot kept (s # rest) =
     (if s = [] \<or> s = ''.'' then normalize_components allowAboveRoot kept rest
      else if s = ''..'' then
        (if kept \<noteq> [] \<and> hd kept \<noteq> ''..'' then normalize_components allowAboveRoot (tl kept) rest
         else if allowAboveRoot then normalize_components allowAboveRoot (''..'' # kept) rest
         else normalize_components allowAboveRoot kept rest)
      else normalize_components allowAboveRoot (s # kept) rest)"

definition posix_normalize :: "string \<Rightarrow> string" where
  "posix_normalize p =
     (if p = [] then ''.''
      else
        (let isAbsolute = (hd p = CHR ''/'');
             trailingSeparator = (last p = CHR ''/'');
             q = concat_with_sep (normalize_components (\<not> isAbsolute) [] (split_sep p))
         in if q = [] then (if isAbsolute then ''/'' else if trailingSeparator then ''./'' else ''.'')
            else (if isAbsolute then ''/'' else []) @ q @ (if trailingSeparator then ''/'' else [])))"

definition posix_join :: "string list \<Rightarrow> string" where
  "posix_join segments =
     (let joined = concat_with_sep (filter (\<lambda>s. s \<noteq> []) segments)
      in if joined = [] then ''.'' else posix_normalize joined)"

text \<open>Two separators in a row.\<close>

fun has_double_sep :: "string \<Rightarrow> bool" where
  "has_double_sep (a # b # cs) = ((a = CHR ''/'' \<and> b = CHR ''/'') \<or> has_double_sep (b # cs))"
| "has_double_sep cs = False"

section \<open>Fixtures\<close>

text \<open>
  A stand-in for the YAML parser on the three texts used in concrete runs: the document of
  the test-suite's \<^verbatim>\<open>test.yaml\<close>, the empty text (for which \<^verbatim>\<open>js-yaml\<close> returns
  \<^verbatim>\<open>undefined\<close>) and, for everything else, a syntax error.
\<close>

definition fixture_load :: "string \<Rightarrow> thrown + yaml" where
  "fixture_load s =
     (if s = ''foo: {ciao: mondo}'' then Inr (YMap [(''foo'', YMap [(''ciao'', YStr ''mondo'')])])
      else if s = [] then Inr YUndefined
      else Inl (JsError ''bad yaml''))"

definition fixture_platform :: platform where
  "fixture_platform = \<lparr> path_join = posix_join, yaml_load = fixture_load \<rparr>"

text \<open>
  The directory of the test-suite: \<^verbatim>\<open>test.yaml\<close>, an empty file and a malformed one; and
  the same directory after \<^verbatim>\<open>test.yaml\<close> has been removed.
\<close>

definition fixture_fs :: fs_view where
  "fixture_fs = fs_of
     [(''/t'', Directory),
      (''/t/test.yaml'', RegularFile ''foo: {ciao: mondo}''),
      (''/t/empty.yaml'', RegularFile []),
      (''/t/bad.yaml'', RegularFile ''foo: ['')]"

definition fixture_fs_removed :: fs_view where
  "fixture_fs_removed = fs_of
     [(''/t'', Directory),
      (''/t/empty.yaml'', RegularFile []),
      (''/t/bad.yaml'', RegularFile ''foo: ['')]"

text \<open>A logger that throws whenever it is called.\<close>

definition failing_logger :: logger_fn where
  "failing_logger err msg = Some (JsError ''logger failed'')"

section \<open>Unfolding the definitions\<close>

lemmas shared_defs = read_and_parse_def catch_block_def Let_def
lemmas v1_defs = yamlFileLoader_def yamlFileLoader_try_def
lemmas v2_defs = yamlFileLoader_v2_def yamlFileLoader_v2_try_catch_def yamlFileLoader_v2_try_def
lemmas doc_defs = yamlFileLoader_doc_def
lemmas logger_defs = resolve_logger_def console_log_def failing_logger_def
lemmas msg_defs = not_found_msg_def not_a_file_msg_def catch_msg_def
lemmas posix_defs = posix_join_def posix_normalize_def
lemmas fixture_defs = fixture_platform_def fixture_load_def fixture_fs_def fixture_fs_removed_def
  fs_of_def truthy_def msg_defs logger_defs posix_defs

lemma invoke_all_step:
  assumes "\<And>ld fs. f ld fs = (g ld fs, ld)"
  shows "invoke_all f ld views = (map (g ld) views, ld)"
  by (induction views) (simp_all add: assms)

lemma posix_join_example: "posix_join [''/a'', ''b'', ''config.yaml''] = ''/a/b/config.yaml''"
  by (simp add: posix_defs)

lemma posix_join_redundant_example:
  "posix_join [''/a/'', ''/b//'', [], ''config.yaml''] = ''/a/b/config.yaml''"
  by (simp add: posix_defs)

lemma posix_join_dot_examples:
  "posix_join [''a'', ''..'', ''b''] = ''b''"
  "posix_join [''/a'', ''../..'', ''b''] = ''/b''"
  "posix_join [''..'', ''a''] = ''../a''"
  "posix_join [''a/'', ''b/''] = ''a/b/''"
  "posix_join [''./a'', ''.''] = ''a''"
  "posix_join [] = ''.''"
  by (simp_all add: posix_defs)

text \<open>
  Once the path exists, the documented copy runs the \<^verbatim>\<open>try\<close> statement of \<^verbatim>\<open>part_000\<close>.
\<close>

lemma yamlFileLoader_doc_existing:
  "existsSync fs (sourcePath ld) \<Longrightarrow> yamlFileLoader_doc P ld fs = yamlFileLoader_v2 P ld fs"
  by (simp add: yamlFileLoader_doc_def yamlFileLoader_v2_def Let_def)

section \<open>The success path\<close>

lemma yamlFileLoader_regular:
  assumes "stat fs (sourcePath ld) = Inr st" and "isFile st"
    and "readFile fs (sourcePath ld) = Inr content" and "yaml_load P content = Inr doc"
  shows "yamlFileLoader P ld fs =
           (Inr doc, [Stat (sourcePath ld), ReadFile (sourcePath ld), YamlParse content])"
  using assms by (simp add: v1_defs shared_defs)

lemma yamlFileLoader_v2_regular:
  assumes "existsSync fs (sourcePath ld)"
    and "stat fs (sourcePath ld) = Inr st" and "isFile st"
    and "readFile fs (sourcePath ld) = Inr content" and "yaml_load P content = Inr doc"
  shows "yamlFileLoader_v2 P ld fs =
           (Inr doc, [ExistsSync (sourcePath ld), Stat (sourcePath ld), ReadFile (sourcePath ld),
                      YamlParse content])"
  using assms by (simp add: v2_defs shared_defs)

text \<open>
  C1. A loader invoked while its path exists, \<^verbatim>\<open>stat\<close> reports a regular file, the read
  succeeds and the text parses to a mapping resolves with exactly that mapping, whatever
  \<^verbatim>\<open>throwOnError\<close> and the logger are (the closure \<open>ld\<close> is arbitrary), in all three
  versions; the logger is not called.
\<close>

theorem wellformed_mapping_file_resolves:
  assumes "existsSync fs (sourcePath ld)"
    and "stat fs (sourcePath ld) = Inr st" and "isFile st"
    and "readFile fs (sourcePath ld) = Inr content"
    and "yaml_load P content = Inr (YMap kvs)"
  shows "yamlFileLoader P ld fs =
           (Inr (YMap kvs), [Stat (sourcePath ld), ReadFile (sourcePath ld), YamlParse content]) \<and>
         yamlFileLoader_v2 P ld fs =
           (Inr (YMap kvs), [ExistsSync (sourcePath ld), Stat (sourcePath ld),
                             ReadFile (sourcePath ld), YamlParse content]) \<and>
         yamlFileLoader_doc P ld fs =
           (Inr (YMap kvs), [ExistsSync (sourcePath ld), Stat (sourcePath ld),
                             ReadFile (sourcePath ld), YamlParse content])"
  using assms
  by (simp add: yamlFileLoader_regular yamlFileLoader_v2_regular yamlFileLoader_doc_existing)

text \<open>
  The run of the test-suite on \<^verbatim>\<open>test.yaml\<close>, with \<^verbatim>\<open>throwOnError\<close> set and unset.
\<close>

theorem wellformed_mapping_file_resolves_witness:
  "fst (yamlFileLoader fixture_platform
          \<lparr>throwOnError = Some True, logger = None, sourcePath = ''/t/test.yaml''\<rparr> fixture_fs)
     = Inr (YMap [(''foo'', YMap [(''ciao'', YStr ''mondo'')])]) \<and>
   fst (yamlFileLoader_v2 fixture_platform
          \<lparr>throwOnError = Some True, logger = None, sourcePath = ''/t/test.yaml''\<rparr> fixture_fs)
     = Inr (YMap [(''foo'', YMap [(''ciao'', YStr ''mondo'')])]) \<and>
   fst (yamlFileLoader_doc fixture_platform
          \<lparr>throwOnError = Some True, logger = None, sourcePath = ''/t/test.yaml''\<rparr> fixture_fs)
     = Inr (YMap [(''foo'', YMap [(''ciao'', YStr ''mondo'')])]) \<and>
   fst (yamlFileLoader fixture_platform
          \<lparr>throwOnError = Some False, logger = None, sourcePath = ''/t/test.yaml''\<rparr> fixture_fs)
     = Inr (YMap [(''foo'', YMap [(''ciao'', YStr ''mondo'')])]) \<and>
   fst (yamlFileLoader_v2 fixture_platform
          \<lparr>throwOnError = Some False, logger = None, sourcePath = ''/t/test.yaml''\<rparr> fixture_fs)
     = Inr (YMap [(''foo'', YMap [(''ciao'', YStr ''mondo'')])]) \<and>
   fst (yamlFileLoader_doc fixture_platform
          \<lparr>throwOnError = Some False, logger = Some failing_logger, sourcePath = ''/t/test.yaml''\<rparr>
          fixture_fs)
     = Inr (YMap [(''foo'', YMap [(''ciao'', YStr ''mondo'')])])"
proof -
  have e: "existsSync fixture_fs ''/t/test.yaml''"
    and s: "stat fixture_fs ''/t/test.yaml'' = Inr (Stats True)"
    and r: "readFile fixture_fs ''/t/test.yaml'' = Inr ''foo: {ciao: mondo}''"
    and y: "yaml_load fixture_platform ''foo: {ciao: mondo}'' =
              Inr (YMap [(''foo'', YMap [(''ciao'', YStr ''mondo'')])])"
    by (simp_all add: fixture_defs)
  show ?thesis
    using wellformed_mapping_file_resolves [of fixture_fs
        "\<lparr>throwOnError = Some True, logger = None, sourcePath = ''/t/test.yaml''\<rparr>" "Stats True"
        "''foo: {ciao: mondo}''" fixture_platform]
      wellformed_mapping_file_resolves [of fixture_fs
        "\<lparr>throwOnError = Some False, logger = None, sourcePath = ''/t/test.yaml''\<rparr>" "Stats True"
        "''foo: {ciao: mondo}''" fixture_platform]
      wellformed_mapping_file_resolves [of fixture_fs
        "\<lparr>throwOnError = Some False, logger = Some failing_logger, sourcePath = ''/t/test.yaml''\<rparr>"
        "Stats True" "''foo: {ciao: mondo}''" fixture_platform]
      e s r y by simp
qed

section \<open>The factory\<close>

text \<open>
  C2, as stated, fails on \<^verbatim>\<open>yaml-loader.ts\<close>: its factory asks the filesystem whether the
  path exists and, with \<^verbatim>\<open>throwOnError\<close>, throws when it does not. This is the first
  "not existent file" test of that version (\<^verbatim>\<open>expect(() => yamlLoader(...)).toThrow()\<close>).
\<close>

theorem factory_throws_on_missing_path_counterexample:
  "fst (yamlLoader fixture_platform \<lparr>throwOnError = Some True, logger = None\<rparr>
          [''/t'', ''test_not_exist.yaml''] fixture_fs)
     = Inl (JsError ''/t/test_not_exist.yaml 404'') \<and>
   filter fs_call (snd (yamlLoader fixture_platform \<lparr>throwOnError = Some True, logger = None\<rparr>
                          [''/t'', ''test_not_exist.yaml''] fixture_fs))
     = [ExistsSync ''/t/test_not_exist.yaml'']"
  by (simp add: yamlLoader_def Let_def fixture_defs)

text \<open>
  C2, amended. The factories of \<^verbatim>\<open>part_000\<close> and of the documented copy return their
  closure after the single call \<^verbatim>\<open>path.join\<close>, whatever the filesystem holds and whatever
  \<^verbatim>\<open>throwOnError\<close> and the logger are: no filesystem access, no logger call, no throw.
  The factory of \<^verbatim>\<open>yaml-loader.ts\<close> calls \<^verbatim>\<open>path.join\<close> and then \<^verbatim>\<open>existsSync\<close> on the
  joined path, its only filesystem call. If the path exists it returns the closure. If not,
  it calls the logger once, with the marker \<^verbatim>\<open>{ msg: 'not exist' }\<close> and the message
  \<^verbatim>\<open><SourcePath> 404\<close>; it then throws what the logger threw, if the logger threw; else
  it throws an error with message \<^verbatim>\<open><SourcePath> 404\<close> if \<^verbatim>\<open>throwOnError\<close> is truthy; else
  it returns the closure.
\<close>

theorem factory_effects:
  assumes "sp = path_join P toks"
    and "ld = \<lparr>throwOnError = throwOnError cfg, logger = logger cfg, sourcePath = sp\<rparr>"
  shows "yamlLoader_v2 P cfg toks fs = (Inr ld, [PathJoin toks]) \<and>
         yamlLoader_doc P cfg toks fs = (Inr ld, [PathJoin toks]) \<and>
         snd (yamlLoader P cfg toks fs) =
           [PathJoin toks, ExistsSync sp] @
             (if existsSync fs sp then [] else [Logger (Marker ''not exist'') (not_found_msg sp)]) \<and>
         fst (yamlLoader P cfg toks fs) =
           (if existsSync fs sp then Inr ld
            else case resolve_logger (logger cfg) (Marker ''not exist'') (not_found_msg sp) of
                   Some thrown_by_logger \<Rightarrow> Inl thrown_by_logger
                 | None \<Rightarrow>
                     if truthy (throwOnError cfg) then Inl (JsError (not_found_msg sp)) else Inr ld)"
  using assms
  by (simp add: yamlLoader_v2_def yamlLoader_doc_def yamlLoader_def Let_def split: option.splits)

text \<open>
  The factories on the missing file of the test-suite: with \<^verbatim>\<open>throwOnError\<close> set, with
  \<^verbatim>\<open>throwOnError\<close> unset, and with a logger that throws.
\<close>

theorem factory_effects_witness:
  "yamlLoader_v2 fixture_platform \<lparr>throwOnError = Some True, logger = None\<rparr>
     [''/t'', ''test_not_exist.yaml''] fixture_fs =
     (Inr \<lparr>throwOnError = Some True, logger = None, sourcePath = ''/t/test_not_exist.yaml''\<rparr>,
      [PathJoin [''/t'', ''test_not_exist.yaml'']]) \<and>
   yamlLoader fixture_platform \<lparr>throwOnError = Some False, logger = None\<rparr>
     [''/t'', ''test_not_exist.yaml''] fixture_fs =
     (Inr \<lparr>throwOnError = Some False, logger = None, sourcePath = ''/t/test_not_exist.yaml''\<rparr>,
      [PathJoin [''/t'', ''test_not_exist.yaml''], ExistsSync ''/t/test_not_exist.yaml'',
       Logger (Marker ''not exist'') ''/t/test_not_exist.yaml 404'']) \<and>
   fst (yamlLoader fixture_platform \<lparr>throwOnError = Some False, logger = Some failing_logger\<rparr>
          [''/t'', ''test_not_exist.yaml''] fixture_fs) =
     Inl (JsError ''logger failed'')"
proof -
  have p: "''/t/test_not_exist.yaml'' = path_join fixture_platform [''/t'', ''test_not_exist.yaml'']"
    by (simp add: fixture_defs)
  have x: "\<not> existsSync fixture_fs ''/t/test_not_exist.yaml''"
    by (simp add: fixture_defs)
  have a: "yamlLoader_v2 fixture_platform \<lparr>throwOnError = Some True, logger = None\<rparr>
     [''/t'', ''test_not_exist.yaml''] fixture_fs =
     (Inr \<lparr>throwOnError = Some True, logger = None, sourcePath = ''/t/test_not_exist.yaml''\<rparr>,
      [PathJoin [''/t'', ''test_not_exist.yaml'']])"
    using factory_effects [OF p, of _ "\<lparr>throwOnError = Some True, logger = None\<rparr>" fixture_fs]
    by simp
  have b: "yamlLoader fixture_platform \<lparr>throwOnError = Some False, logger = None\<rparr>
     [''/t'', ''test_not_exist.yaml''] fixture_fs =
     (Inr \<lparr>throwOnError = Some False, logger = None, sourcePath = ''/t/test_not_exist.yaml''\<rparr>,
      [PathJoin [''/t'', ''test_not_exist.yaml''], ExistsSync ''/t/test_not_exist.yaml'',
       Logger (Marker ''not exist'') ''/t/test_not_exist.yaml 404''])"
    using factory_effects [OF p, of _ "\<lparr>throwOnError = Some False, logger = None\<rparr>" fixture_fs] x
    by (simp add: prod_eq_iff logger_defs truthy_def msg_defs)
  have c: "fst (yamlLoader fixture_platform \<lparr>throwOnError = Some False, logger = Some failing_logger\<rparr>
          [''/t'', ''test_not_exist.yaml''] fixture_fs) =
     Inl (JsError ''logger failed'')"
    using factory_effects [OF p, of _ "\<lparr>throwOnError = Some False, logger = Some failing_logger\<rparr>"
        fixture_fs] x
    by (simp add: logger_defs)
  from a b c show ?thesis by blast
qed

section \<open>A missing path\<close>

text \<open>
  C3, as stated, fails in three ways.
  \<^item> On \<^verbatim>\<open>yaml-loader.ts\<close>, whose existence test sits in the factory: a loader built
    while \<^verbatim>\<open>test.yaml\<close> existed and invoked after its removal (the "removed after init"
    test) fails with the message of the catch block, not with \<^verbatim>\<open><SourcePath> 404\<close>.
  \<^item> On the documented copy, which does short-circuit: with \<^verbatim>\<open>throwOnError\<close> unset it
    returns \<^verbatim>\<open>{}\<close> after the existence test and never calls \<^verbatim>\<open>stat\<close>.
  \<^item> On \<^verbatim>\<open>part_000\<close> with a logger that throws: the logger call of the existence test
    stands outside the \<^verbatim>\<open>try\<close>, so with \<^verbatim>\<open>throwOnError\<close> unset the invocation fails
    instead of resolving with \<^verbatim>\<open>{}\<close>.
\<close>

theorem missing_path_counterexample:
  "fst (yamlLoader fixture_platform \<lparr>throwOnError = Some True, logger = None\<rparr>
          [''/t'', ''test.yaml''] fixture_fs)
     = Inr \<lparr>throwOnError = Some True, logger = None, sourcePath = ''/t/test.yaml''\<rparr> \<and>
   \<not> existsSync fixture_fs_removed ''/t/test.yaml'' \<and>
   fst (yamlFileLoader fixture_platform
          \<lparr>throwOnError = Some True, logger = None, sourcePath = ''/t/test.yaml''\<rparr> fixture_fs_removed)
     = Inl (JsError ''FILE DELETED OR A DIRECTORY-> /t/test.yaml 404: ENOENT: no such file or directory'') \<and>
   yamlFileLoader_doc fixture_platform
     \<lparr>throwOnError = Some False, logger = None, sourcePath = ''/t/test.yaml''\<rparr> fixture_fs_removed
     = (Inr (YMap []),
        [ExistsSync ''/t/test.yaml'', Logger (Marker ''not exist'') ''/t/test.yaml 404'']) \<and>
   yamlFileLoader_v2 fixture_platform
     \<lparr>throwOnError = Some False, logger = Some failing_logger, sourcePath = ''/t/test.yaml''\<rparr>
     fixture_fs_removed
     = (Inl (JsError ''logger failed''),
        [ExistsSync ''/t/test.yaml'', Logger (Marker ''not exist'') ''/t/test.yaml 404''])"
  by (simp add: yamlLoader_def v1_defs v2_defs doc_defs shared_defs fixture_defs)

text \<open>
  C3, amended. Let the path be missing at invocation time: \<^verbatim>\<open>existsSync\<close> answers no and
  \<^verbatim>\<open>stat\<close> throws \<open>e\<close>. Write \<open>m\<close> for \<^verbatim>\<open><SourcePath> 404\<close>.
  \<^item> \<^verbatim>\<open>part_000\<close> calls the logger with \<open>m\<close>. If that call throws, the invocation fails
    with what it threw. Else, with \<^verbatim>\<open>throwOnError\<close>, it fails with an error carrying \<open>m\<close>.
    Else it does not short-circuit: it calls \<^verbatim>\<open>stat\<close>, calls the logger with \<open>e\<close> and the
    message of the catch block, and (unless this second call throws, which then fails the
    invocation) resolves with \<^verbatim>\<open>{}\<close>.
  \<^item> The documented copy does the same up to the \<^verbatim>\<open>throwOnError\<close> test, and then resolves
    with \<^verbatim>\<open>{}\<close> at once.
  \<^item> \<^verbatim>\<open>yaml-loader.ts\<close> makes no existence test in the loader: it calls \<^verbatim>\<open>stat\<close>, calls
    the logger once, from the catch block, and (unless that call throws) fails with the
    message of the catch block or resolves with \<^verbatim>\<open>{}\<close>.
\<close>

theorem missing_path_outcome:
  assumes "\<not> existsSync fs sp" and "stat fs sp = Inl e"
    and "sp = sourcePath ld" and "m = not_found_msg sp" and "lg = resolve_logger (logger ld)"
  shows "yamlFileLoader_v2 P ld fs =
           (case lg (Marker ''not exist'') m of
              Some thrown_by_logger \<Rightarrow>
                (Inl thrown_by_logger, [ExistsSync sp, Logger (Marker ''not exist'') m])
            | None \<Rightarrow>
                if truthy (throwOnError ld)
                then (Inl (JsError m), [ExistsSync sp, Logger (Marker ''not exist'') m])
                else (case lg (Caught e) (catch_msg sp e) of
                        Some thrown_by_logger \<Rightarrow> Inl thrown_by_logger
                      | None \<Rightarrow> Inr (YMap []),
                      [ExistsSync sp, Logger (Marker ''not exist'') m, Stat sp,
                       Logger (Caught e) (catch_msg sp e)])) \<and>
         yamlFileLoader_doc P ld fs =
           (case lg (Marker ''not exist'') m of
              Some thrown_by_logger \<Rightarrow> Inl thrown_by_logger
            | None \<Rightarrow> if truthy (throwOnError ld) then Inl (JsError m) else Inr (YMap []),
            [ExistsSync sp, Logger (Marker ''not exist'') m]) \<and>
         yamlFileLoader P ld fs =
           (case lg (Caught e) (catch_msg sp e) of
              Some thrown_by_logger \<Rightarrow> Inl thrown_by_logger
            | None \<Rightarrow>
                if truthy (throwOnError ld) then Inl (JsError (catch_msg sp e)) else Inr (YMap []),
            [Stat sp, Logger (Caught e) (catch_msg sp e)])"
  using assms(1,2) unfolding assms(3-5)
  by (simp add: v1_defs v2_defs doc_defs shared_defs split: option.splits)

text \<open>The removed \<^verbatim>\<open>test.yaml\<close>, with \<^verbatim>\<open>throwOnError\<close> set and unset.\<close>

theorem missing_path_outcome_witness:
  "fst (yamlFileLoader_v2 fixture_platform
          \<lparr>throwOnError = Some True, logger = None, sourcePath = ''/t/test.yaml''\<rparr> fixture_fs_removed)
     = Inl (JsError ''/t/test.yaml 404'') \<and>
   yamlFileLoader_v2 fixture_platform
     \<lparr>throwOnError = Some False, logger = None, sourcePath = ''/t/test.yaml''\<rparr> fixture_fs_removed
     = (Inr (YMap []),
        [ExistsSync ''/t/test.yaml'', Logger (Marker ''not exist'') ''/t/test.yaml 404'',
         Stat ''/t/test.yaml'',
         Logger (Caught (JsError ''ENOENT: no such file or directory''))
           ''FILE DELETED OR A DIRECTORY-> /t/test.yaml 404: ENOENT: no such file or directory'']) \<and>
   fst (yamlFileLoader_doc fixture_platform
          \<lparr>throwOnError = Some True, logger = None, sourcePath = ''/t/test.yaml''\<rparr> fixture_fs_removed)
     = Inl (JsError ''/t/test.yaml 404'') \<and>
   fst (yamlFileLoader fixture_platform
          \<lparr>throwOnError = Some False, logger = None, sourcePath = ''/t/test.yaml''\<rparr> fixture_fs_removed)
     = Inr (YMap [])"
proof -
  have e: "\<not> existsSync fixture_fs_removed ''/t/test.yaml''"
    and s: "stat fixture_fs_removed ''/t/test.yaml'' = Inl (JsError ''ENOENT: no such file or directory'')"
    by (simp_all add: fixture_defs)
  note w = missing_path_outcome [OF e s _ refl refl, of _ fixture_platform]
  show ?thesis
    using w [of "\<lparr>throwOnError = Some True, logger = None, sourcePath = ''/t/test.yaml''\<rparr>"]
      w [of "\<lparr>throwOnError = Some False, logger = None, sourcePath = ''/t/test.yaml''\<rparr>"]
    by (simp add: truthy_def logger_defs msg_defs)
qed

section \<open>A directory\<close>

text \<open>
  C4, as stated, fails on every version when \<^verbatim>\<open>throwOnError\<close> is set: the error that
  reaches the caller carries the message of the catch block, not
  \<^verbatim>\<open>Source <SourcePath> is not a file\<close>. In \<^verbatim>\<open>yaml-loader.ts\<close> a directory is reported by
  throwing inside the \<^verbatim>\<open>try\<close>, so that the only logger call is the one of the catch block
  (whose message names the case: "FILE DELETED OR A DIRECTORY"). In \<^verbatim>\<open>part_000\<close> the
  error thrown at line 44 is caught by the catch block of the same statement.
\<close>

theorem directory_message_counterexample:
  "yamlFileLoader fixture_platform \<lparr>throwOnError = Some True, logger = None, sourcePath = ''/t''\<rparr>
     fixture_fs =
     (Inl (JsError ''FILE DELETED OR A DIRECTORY-> /t 404: Source /t is not a file''),
      [Stat ''/t'',
       Logger (Caught (JsError ''Source /t is not a file''))
         ''FILE DELETED OR A DIRECTORY-> /t 404: Source /t is not a file'']) \<and>
   fst (yamlFileLoader_v2 fixture_platform
          \<lparr>throwOnError = Some True, logger = None, sourcePath = ''/t''\<rparr> fixture_fs) =
     Inl (JsError ''FILE DELETED OR A DIRECTORY-> /t 404: Source /t is not a file'')"
  by (simp add: v1_defs v2_defs shared_defs fixture_defs)

text \<open>
  C4, amended. Let the path exist and \<^verbatim>\<open>stat\<close> report something that is not a regular
  file; write \<open>nf\<close> for \<^verbatim>\<open>Source <SourcePath> is not a file\<close> and \<open>cm\<close> for
  \<^verbatim>\<open>FILE DELETED OR A DIRECTORY-> <SourcePath> 404: \<close> followed by \<open>nf\<close>.
  \<^item> \<^verbatim>\<open>part_000\<close> and the documented copy (which run the same statements here): whatever
    the logger does, the calls other than logger calls are \<^verbatim>\<open>existsSync\<close> and \<^verbatim>\<open>stat\<close>, so
    nothing is read or parsed, and the first logger call has the marker \<^verbatim>\<open>{ msg }\<close> and
    the message \<open>nf\<close>. If that call returns: without \<^verbatim>\<open>throwOnError\<close> it is the only
    logger call and the invocation resolves with \<^verbatim>\<open>{}\<close>; with \<^verbatim>\<open>throwOnError\<close> the
    invocation fails. (Which message the error then carries, and how often the logger is
    called, is the matter of C6.)
  \<^item> \<^verbatim>\<open>yaml-loader.ts\<close>: the calls are \<^verbatim>\<open>stat\<close> and one logger call, with the thrown error
    and the message \<open>cm\<close>. If the logger throws, the invocation fails with what it threw;
    else with \<^verbatim>\<open>throwOnError\<close> it fails with an error carrying \<open>cm\<close>, and without it it
    resolves with \<^verbatim>\<open>{}\<close>.
\<close>

theorem directory_outcome:
  assumes "existsSync fs sp"
    and "stat fs sp = Inr st" and "\<not> isFile st"
    and "sp = sourcePath ld" and "lg = resolve_logger (logger ld)"
    and "nf = not_a_file_msg sp" and "cm = catch_msg sp (JsError nf)"
  shows "other_calls (snd (yamlFileLoader_v2 P ld fs)) = [ExistsSync sp, Stat sp] \<and>
         take 1 (logger_calls (snd (yamlFileLoader_v2 P ld fs))) = [Logger (Marker nf) nf] \<and>
         (lg (Marker nf) nf = None \<longrightarrow>
            (if truthy (throwOnError ld) then isl (fst (yamlFileLoader_v2 P ld fs))
             else yamlFileLoader_v2 P ld fs =
                    (Inr (YMap []), [ExistsSync sp, Stat sp, Logger (Marker nf) nf]))) \<and>
         yamlFileLoader_doc P ld fs = yamlFileLoader_v2 P ld fs \<and>
         yamlFileLoader P ld fs =
           (case lg (Caught (JsError nf)) cm of
              Some thrown_by_logger \<Rightarrow> Inl thrown_by_logger
            | None \<Rightarrow> if truthy (throwOnError ld) then Inl (JsError cm) else Inr (YMap []),
            [Stat sp, Logger (Caught (JsError nf)) cm])"
proof -
  have others: "other_calls (snd (yamlFileLoader_v2 P ld fs)) = [ExistsSync sp, Stat sp]"
    using assms(1-3) unfolding assms(4-7)
    by (simp add: v2_defs shared_defs other_calls_def split: option.splits)
  have first: "take 1 (logger_calls (snd (yamlFileLoader_v2 P ld fs))) = [Logger (Marker nf) nf]"
    using assms(1-3) unfolding assms(4-7)
    by (simp add: v2_defs shared_defs logger_calls_def split: option.splits)
  have returned: "lg (Marker nf) nf = None \<longrightarrow>
            (if truthy (throwOnError ld) then isl (fst (yamlFileLoader_v2 P ld fs))
             else yamlFileLoader_v2 P ld fs =
                    (Inr (YMap []), [ExistsSync sp, Stat sp, Logger (Marker nf) nf]))"
    using assms(1-3) unfolding assms(4-7)
    by (simp add: v2_defs shared_defs split: option.splits)
  have doc: "yamlFileLoader_doc P ld fs = yamlFileLoader_v2 P ld fs"
    using assms(1) unfolding assms(4) by (rule yamlFileLoader_doc_existing)
  have v1: "yamlFileLoader P ld fs =
           (case lg (Caught (JsError nf)) cm of
              Some thrown_by_logger \<Rightarrow> Inl thrown_by_logger
            | None \<Rightarrow> if truthy (throwOnError ld) then Inl (JsError cm) else Inr (YMap []),
            [Stat sp, Logger (Caught (JsError nf)) cm])"
    using assms(1-3) unfolding assms(4-7)
    by (simp add: v1_defs shared_defs split: option.splits)
  from others first returned doc v1 show ?thesis by blast
qed

text \<open>The directory of the test-suite, read with \<^verbatim>\<open>throwOnError\<close> unset and set.\<close>

theorem directory_outcome_witness:
  "yamlFileLoader_v2 fixture_platform \<lparr>throwOnError = Some False, logger = None, sourcePath = ''/t''\<rparr>
     fixture_fs =
     (Inr (YMap []),
      [ExistsSync ''/t'', Stat ''/t'',
       Logger (Marker ''Source /t is not a file'') ''Source /t is not a file'']) \<and>
   isl (fst (yamlFileLoader_v2 fixture_platform
               \<lparr>throwOnError = Some True, logger = None, sourcePath = ''/t''\<rparr> fixture_fs)) \<and>
   other_calls (snd (yamlFileLoader_doc fixture_platform
               \<lparr>throwOnError = Some True, logger = Some failing_logger, sourcePath = ''/t''\<rparr> fixture_fs)) =
     [ExistsSync ''/t'', Stat ''/t''] \<and>
   fst (yamlFileLoader fixture_platform
          \<lparr>throwOnError = Some False, logger = None, sourcePath = ''/t''\<rparr> fixture_fs) =
     Inr (YMap [])"
proof -
  have e: "existsSync fixture_fs ''/t''"
    and s: "stat fixture_fs ''/t'' = Inr (Stats False)"
    by (simp_all add: fixture_defs)
  have n: "\<not> isFile (Stats False)" by simp
  note w = directory_outcome [OF e s n _ refl refl refl, of _ fixture_platform]
  show ?thesis
    using w [of "\<lparr>throwOnError = Some False, logger = None, sourcePath = ''/t''\<rparr>"]
      w [of "\<lparr>throwOnError = Some True, logger = None, sourcePath = ''/t''\<rparr>"]
      w [of "\<lparr>throwOnError = Some True, logger = Some failing_logger, sourcePath = ''/t''\<rparr>"]
    by (simp add: truthy_def logger_defs msg_defs)
qed

section \<open>Failures after the existence test\<close>

lemma catch_block_result:
  "Logger (Caught err) (catch_msg (sourcePath ld) err) \<in> set (snd (catch_block ld err t)) \<and>
   fst (catch_block ld err t) =
     (case resolve_logger (logger ld) (Caught err) (catch_msg (sourcePath ld) err) of
        Some thrown_by_logger \<Rightarrow> Inl thrown_by_logger
      | None \<Rightarrow>
          if truthy (throwOnError ld) then Inl (JsError (catch_msg (sourcePath ld) err))
          else Inr (YMap []))"
  by (simp add: catch_block_def Let_def split: option.splits)

lemma yamlFileLoader_try_fails:
  assumes "stat fs (sourcePath ld) = Inl e \<or>
       (\<exists>st. stat fs (sourcePath ld) = Inr st \<and> isFile st \<and>
          (readFile fs (sourcePath ld) = Inl e \<or>
           (\<exists>content. readFile fs (sourcePath ld) = Inr content \<and> yaml_load P content = Inl e)))"
  shows "fst (yamlFileLoader_try P ld fs) = Inl e"
  using assms by (auto simp: yamlFileLoader_try_def read_and_parse_def Let_def)

lemma yamlFileLoader_v2_try_fails:
  assumes "stat fs (sourcePath ld) = Inl e \<or>
       (\<exists>st. stat fs (sourcePath ld) = Inr st \<and> isFile st \<and>
          (readFile fs (sourcePath ld) = Inl e \<or>
           (\<exists>content. readFile fs (sourcePath ld) = Inr content \<and> yaml_load P content = Inl e)))"
  shows "fst (yamlFileLoader_v2_try P ld fs t) = Inl e"
  using assms by (auto simp: yamlFileLoader_v2_try_def read_and_parse_def Let_def)

lemma yamlFileLoader_caught:
  assumes "fst (yamlFileLoader_try P ld fs) = Inl e"
  shows "yamlFileLoader P ld fs = catch_block ld e (snd (yamlFileLoader_try P ld fs))"
  using assms by (cases "yamlFileLoader_try P ld fs") (simp add: yamlFileLoader_def)

lemma yamlFileLoader_v2_try_catch_caught:
  assumes "fst (yamlFileLoader_v2_try P ld fs t) = Inl e"
  shows "yamlFileLoader_v2_try_catch P ld fs t =
           catch_block ld e (snd (yamlFileLoader_v2_try P ld fs t))"
  using assms by (cases "yamlFileLoader_v2_try P ld fs t") (simp add: yamlFileLoader_v2_try_catch_def)

lemma yamlFileLoader_v2_reaches_try:
  assumes "existsSync fs (sourcePath ld) \<or>
           (\<not> truthy (throwOnError ld) \<and>
            resolve_logger (logger ld) (Marker ''not exist'') (not_found_msg (sourcePath ld)) = None)"
  shows "\<exists>t. yamlFileLoader_v2 P ld fs = yamlFileLoader_v2_try_catch P ld fs t"
  using assms by (auto simp: yamlFileLoader_v2_def Let_def)

text \<open>
  C5, as stated, fails when the logger throws: nothing guards the logger call of the catch
  block, so the invocation then fails with what the logger threw, also when
  \<^verbatim>\<open>throwOnError\<close> is unset. Here the text of \<^verbatim>\<open>bad.yaml\<close> does not parse.
\<close>

theorem late_failure_counterexample:
  "yamlFileLoader_v2 fixture_platform
     \<lparr>throwOnError = Some False, logger = Some failing_logger, sourcePath = ''/t/bad.yaml''\<rparr> fixture_fs =
     (Inl (JsError ''logger failed''),
      [ExistsSync ''/t/bad.yaml'', Stat ''/t/bad.yaml'', ReadFile ''/t/bad.yaml'', YamlParse ''foo: ['',
       Logger (Caught (JsError ''bad yaml''))
         ''FILE DELETED OR A DIRECTORY-> /t/bad.yaml 404: bad yaml'']) \<and>
   fst (yamlFileLoader fixture_platform
          \<lparr>throwOnError = Some False, logger = Some failing_logger, sourcePath = ''/t/bad.yaml''\<rparr>
          fixture_fs) =
     Inl (JsError ''logger failed'')"
  by (simp add: v1_defs v2_defs shared_defs fixture_defs)

text \<open>
  C5, amended. Let \<^verbatim>\<open>stat\<close>, or the read of a regular file, or the parse of its text throw
  \<open>e\<close>, in an invocation that gets as far as \<^verbatim>\<open>stat\<close>. The loader of \<^verbatim>\<open>yaml-loader.ts\<close>
  always does; that of \<^verbatim>\<open>part_000\<close> does if the path exists, or if \<^verbatim>\<open>throwOnError\<close> is
  unset and the logger call of the existence test returns; the documented copy does if the
  path exists. Then the logger is called with \<open>e\<close> itself and the message
  \<^verbatim>\<open>FILE DELETED OR A DIRECTORY-> <SourcePath> 404: <message of e, or nothing>\<close>.
  If this call throws, the invocation fails with what the logger threw. If it returns: with
  \<^verbatim>\<open>throwOnError\<close> the invocation fails with a new \<^verbatim>\<open>Error\<close> that carries exactly that
  message (and nothing else of \<open>e\<close>), and without it it resolves with \<^verbatim>\<open>{}\<close>.
\<close>

theorem late_failure_handled_by_catch:
  assumes failure:
      "stat fs sp = Inl e \<or>
       (\<exists>st. stat fs sp = Inr st \<and> isFile st \<and>
          (readFile fs sp = Inl e \<or>
           (\<exists>content. readFile fs sp = Inr content \<and> yaml_load P content = Inl e)))"
    and sp: "sp = sourcePath ld" and lg: "lg = resolve_logger (logger ld)"
    and msg: "msg = ''FILE DELETED OR A DIRECTORY-> '' @ sp @ '' 404: '' @
                (case e of JsError m \<Rightarrow> m | NonError \<Rightarrow> [])"
    and outcome: "outcome =
                    (case lg (Caught e) msg of
                       Some thrown_by_logger \<Rightarrow> Inl thrown_by_logger
                     | None \<Rightarrow> if truthy (throwOnError ld) then Inl (JsError msg) else Inr (YMap []))"
  shows "Logger (Caught e) msg \<in> set (snd (yamlFileLoader P ld fs)) \<and>
         fst (yamlFileLoader P ld fs) = outcome \<and>
         (existsSync fs sp \<or>
          (\<not> truthy (throwOnError ld) \<and> lg (Marker ''not exist'') (sp @ '' 404'') = None) \<longrightarrow>
            Logger (Caught e) msg \<in> set (snd (yamlFileLoader_v2 P ld fs)) \<and>
            fst (yamlFileLoader_v2 P ld fs) = outcome) \<and>
         (existsSync fs sp \<longrightarrow>
            Logger (Caught e) msg \<in> set (snd (yamlFileLoader_doc P ld fs)) \<and>
            fst (yamlFileLoader_doc P ld fs) = outcome)"
proof -
  have m: "msg = catch_msg (sourcePath ld) e"
    by (simp add: msg sp catch_msg_def)
  have o: "outcome =
             (case resolve_logger (logger ld) (Caught e) (catch_msg (sourcePath ld) e) of
                Some thrown_by_logger \<Rightarrow> Inl thrown_by_logger
              | None \<Rightarrow>
                  if truthy (throwOnError ld) then Inl (JsError (catch_msg (sourcePath ld) e))
                  else Inr (YMap []))"
    by (simp only: outcome lg m)
  from failure have f: "stat fs (sourcePath ld) = Inl e \<or>
       (\<exists>st. stat fs (sourcePath ld) = Inr st \<and> isFile st \<and>
          (readFile fs (sourcePath ld) = Inl e \<or>
           (\<exists>content. readFile fs (sourcePath ld) = Inr content \<and> yaml_load P content = Inl e)))"
    by (simp only: sp)
  have v1: "Logger (Caught e) msg \<in> set (snd (yamlFileLoader P ld fs)) \<and>
            fst (yamlFileLoader P ld fs) = outcome"
    unfolding yamlFileLoader_caught [OF yamlFileLoader_try_fails [OF f]] m o
    by (rule catch_block_result)
  have tc: "Logger (Caught e) msg \<in> set (snd (yamlFileLoader_v2_try_catch P ld fs t)) \<and>
            fst (yamlFileLoader_v2_try_catch P ld fs t) = outcome" for t
    unfolding yamlFileLoader_v2_try_catch_caught [OF yamlFileLoader_v2_try_fails [OF f]] m o
    by (rule catch_block_result)
  have v2: "Logger (Caught e) msg \<in> set (snd (yamlFileLoader_v2 P ld fs)) \<and>
            fst (yamlFileLoader_v2 P ld fs) = outcome"
    if "existsSync fs sp \<or>
          (\<not> truthy (throwOnError ld) \<and> lg (Marker ''not exist'') (sp @ '' 404'') = None)"
  proof -
    from that have "existsSync fs (sourcePath ld) \<or>
           (\<not> truthy (throwOnError ld) \<and>
            resolve_logger (logger ld) (Marker ''not exist'') (not_found_msg (sourcePath ld)) = None)"
      by (simp add: sp lg not_found_msg_def)
    from yamlFileLoader_v2_reaches_try [OF this, of P]
    obtain t where "yamlFileLoader_v2 P ld fs = yamlFileLoader_v2_try_catch P ld fs t" ..
    with tc [of t] show ?thesis by simp
  qed
  have doc: "Logger (Caught e) msg \<in> set (snd (yamlFileLoader_doc P ld fs)) \<and>
             fst (yamlFileLoader_doc P ld fs) = outcome"
    if "existsSync fs sp"
  proof -
    from that have "yamlFileLoader_doc P ld fs = yamlFileLoader_v2 P ld fs"
      unfolding sp by (rule yamlFileLoader_doc_existing)
    with v2 that show ?thesis by simp
  qed
  from v1 v2 doc show ?thesis by blast
qed

text \<open>
  A file whose text does not parse, read by \<^verbatim>\<open>part_000\<close> with \<^verbatim>\<open>throwOnError\<close> set; and
  the file removed after the loader of \<^verbatim>\<open>yaml-loader.ts\<close> was built, with
  \<^verbatim>\<open>throwOnError\<close> set (the "removed after init" test) and unset.
\<close>

theorem late_failure_handled_by_catch_witness:
  "fst (yamlFileLoader_v2 fixture_platform
          \<lparr>throwOnError = Some True, logger = None, sourcePath = ''/t/bad.yaml''\<rparr> fixture_fs) =
     Inl (JsError ''FILE DELETED OR A DIRECTORY-> /t/bad.yaml 404: bad yaml'') \<and>
   Logger (Caught (JsError ''bad yaml'')) ''FILE DELETED OR A DIRECTORY-> /t/bad.yaml 404: bad yaml''
     \<in> set (snd (yamlFileLoader_doc fixture_platform
                    \<lparr>throwOnError = Some True, logger = None, sourcePath = ''/t/bad.yaml''\<rparr> fixture_fs)) \<and>
   fst (yamlFileLoader fixture_platform
          \<lparr>throwOnError = Some True, logger = None, sourcePath = ''/t/test.yaml''\<rparr> fixture_fs_removed) =
     Inl (JsError ''FILE DELETED OR A DIRECTORY-> /t/test.yaml 404: ENOENT: no such file or directory'') \<and>
   fst (yamlFileLoader_v2 fixture_platform
          \<lparr>throwOnError = Some False, logger = None, sourcePath = ''/t/test.yaml''\<rparr> fixture_fs_removed) =
     Inr (YMap [])"
proof -
  have "stat fixture_fs ''/t/bad.yaml'' = Inr (Stats True) \<and> isFile (Stats True) \<and>
        readFile fixture_fs ''/t/bad.yaml'' = Inr ''foo: ['' \<and>
        yaml_load fixture_platform ''foo: ['' = Inl (JsError ''bad yaml'')"
    by (simp add: fixture_defs)
  then have f: "stat fixture_fs ''/t/bad.yaml'' = Inl (JsError ''bad yaml'') \<or>
       (\<exists>st. stat fixture_fs ''/t/bad.yaml'' = Inr st \<and> isFile st \<and>
          (readFile fixture_fs ''/t/bad.yaml'' = Inl (JsError ''bad yaml'') \<or>
           (\<exists>content. readFile fixture_fs ''/t/bad.yaml'' = Inr content \<and>
              yaml_load fixture_platform content = Inl (JsError ''bad yaml''))))"
    by blast
  have x: "existsSync fixture_fs ''/t/bad.yaml''"
    by (simp add: fixture_defs)
  have "stat fixture_fs_removed ''/t/test.yaml'' = Inl (JsError ''ENOENT: no such file or directory'')"
    by (simp add: fixture_defs)
  then have g: "stat fixture_fs_removed ''/t/test.yaml'' = Inl (JsError ''ENOENT: no such file or directory'') \<or>
       (\<exists>st. stat fixture_fs_removed ''/t/test.yaml'' = Inr st \<and> isFile st \<and>
          (readFile fixture_fs_removed ''/t/test.yaml'' = Inl (JsError ''ENOENT: no such file or directory'') \<or>
           (\<exists>content. readFile fixture_fs_removed ''/t/test.yaml'' = Inr content \<and>
              yaml_load fixture_platform content = Inl (JsError ''ENOENT: no such file or directory''))))"
    by blast
  have a: "fst (yamlFileLoader_v2 fixture_platform
          \<lparr>throwOnError = Some True, logger = None, sourcePath = ''/t/bad.yaml''\<rparr> fixture_fs) =
     Inl (JsError ''FILE DELETED OR A DIRECTORY-> /t/bad.yaml 404: bad yaml'') \<and>
     Logger (Caught (JsError ''bad yaml'')) ''FILE DELETED OR A DIRECTORY-> /t/bad.yaml 404: bad yaml''
     \<in> set (snd (yamlFileLoader_doc fixture_platform
                    \<lparr>throwOnError = Some True, logger = None, sourcePath = ''/t/bad.yaml''\<rparr> fixture_fs))"
    using late_failure_handled_by_catch [OF f _ refl refl refl,
        of "\<lparr>throwOnError = Some True, logger = None, sourcePath = ''/t/bad.yaml''\<rparr>"] x
    by (simp add: truthy_def logger_defs)
  have b: "fst (yamlFileLoader fixture_platform
          \<lparr>throwOnError = Some True, logger = None, sourcePath = ''/t/test.yaml''\<rparr> fixture_fs_removed) =
     Inl (JsError ''FILE DELETED OR A DIRECTORY-> /t/test.yaml 404: ENOENT: no such file or directory'')"
    using late_failure_handled_by_catch [OF g _ refl refl refl,
        of "\<lparr>throwOnError = Some True, logger = None, sourcePath = ''/t/test.yaml''\<rparr>"]
    by (simp add: truthy_def logger_defs)
  have c: "fst (yamlFileLoader_v2 fixture_platform
          \<lparr>throwOnError = Some False, logger = None, sourcePath = ''/t/test.yaml''\<rparr> fixture_fs_removed) =
     Inr (YMap [])"
    using late_failure_handled_by_catch [OF g _ refl refl refl,
        of "\<lparr>throwOnError = Some False, logger = None, sourcePath = ''/t/test.yaml''\<rparr>"]
    by (simp add: truthy_def logger_defs)
  from a b c show ?thesis by blast
qed

section \<open>How often the logger is called\<close>

text \<open>
  The loader of \<^verbatim>\<open>yaml-loader.ts\<close> calls the logger once when its \<^verbatim>\<open>try\<close> fails and not
  at all otherwise.
\<close>

lemma yamlFileLoader_logs_once:
  "length (logger_calls (snd (yamlFileLoader P ld fs))) =
     (if isl (fst (yamlFileLoader_try P ld fs)) then 1 else 0)"
  by (auto simp: v1_defs shared_defs logger_calls_def split: sum.splits option.splits)

text \<open>
  C6 does not hold of \<^verbatim>\<open>part_000\<close>. Invoked on a directory with \<^verbatim>\<open>throwOnError\<close> set, its
  loader logs \<^verbatim>\<open>Source /t is not a file\<close> and then throws from inside the \<^verbatim>\<open>try\<close>; the
  catch block of the same statement catches that error and logs a second time. With
  \<^verbatim>\<open>throwOnError\<close> unset the same loader logs once, and so does the loader of
  \<^verbatim>\<open>yaml-loader.ts\<close>. (A missing path with \<^verbatim>\<open>throwOnError\<close> unset meets two failures in
  \<^verbatim>\<open>part_000\<close>, the existence test and then \<^verbatim>\<open>stat\<close>, and is logged once for each.) The
  documented copy has the \<^verbatim>\<open>try\<close> statement of \<^verbatim>\<open>part_000\<close> and logs the directory twice
  as well. The logger here is the default one.
\<close>

theorem directory_logged_twice:
  "logger_calls (snd (yamlFileLoader_v2 fixture_platform
                        \<lparr>throwOnError = Some True, logger = None, sourcePath = ''/t''\<rparr> fixture_fs)) =
     [Logger (Marker ''Source /t is not a file'') ''Source /t is not a file'',
      Logger (Caught (JsError ''Source /t is not a file''))
        ''FILE DELETED OR A DIRECTORY-> /t 404: Source /t is not a file''] \<and>
   logger_calls (snd (yamlFileLoader_v2 fixture_platform
                        \<lparr>throwOnError = Some False, logger = None, sourcePath = ''/t''\<rparr> fixture_fs)) =
     [Logger (Marker ''Source /t is not a file'') ''Source /t is not a file''] \<and>
   logger_calls (snd (yamlFileLoader fixture_platform
                        \<lparr>throwOnError = Some True, logger = None, sourcePath = ''/t''\<rparr> fixture_fs)) =
     [Logger (Caught (JsError ''Source /t is not a file''))
        ''FILE DELETED OR A DIRECTORY-> /t 404: Source /t is not a file''] \<and>
   logger_calls (snd (yamlFileLoader_v2 fixture_platform
                        \<lparr>throwOnError = Some False, logger = None, sourcePath = ''/t/test.yaml''\<rparr>
                        fixture_fs_removed)) =
     [Logger (Marker ''not exist'') ''/t/test.yaml 404'',
      Logger (Caught (JsError ''ENOENT: no such file or directory''))
        ''FILE DELETED OR A DIRECTORY-> /t/test.yaml 404: ENOENT: no such file or directory''] \<and>
   logger_calls (snd (yamlFileLoader_doc fixture_platform
                        \<lparr>throwOnError = Some True, logger = None, sourcePath = ''/t''\<rparr> fixture_fs)) =
     [Logger (Marker ''Source /t is not a file'') ''Source /t is not a file'',
      Logger (Caught (JsError ''Source /t is not a file''))
        ''FILE DELETED OR A DIRECTORY-> /t 404: Source /t is not a file'']"
  by (simp add: v1_defs v2_defs doc_defs shared_defs fixture_defs logger_calls_def)

section \<open>The modelled join leaves no redundant separator\<close>

lemma has_double_sep_append:
  assumes "\<not> has_double_sep xs" and "\<not> has_double_sep ys"
    and "xs = [] \<or> ys = [] \<or> last xs \<noteq> CHR ''/'' \<or> hd ys \<noteq> CHR ''/''"
  shows "\<not> has_double_sep (xs @ ys)"
  using assms
proof (induction xs)
  case Nil
  then show ?case by simp
next
  case (Cons a xs)
  show ?case
  proof (cases xs)
    case Nil
    with Cons.prems show ?thesis by (cases ys) auto
  next
    case (Cons b zs)
    with Cons.prems have "\<not> has_double_sep xs" and "\<not> (a = CHR ''/'' \<and> b = CHR ''/'')"
      and "xs = [] \<or> ys = [] \<or> last xs \<noteq> CHR ''/'' \<or> hd ys \<noteq> CHR ''/''"
      by simp_all
    with Cons.IH Cons.prems(2) Cons show ?thesis by simp
  qed
qed

lemma no_sep_no_double_sep: "CHR ''/'' \<notin> set s \<Longrightarrow> \<not> has_double_sep s"
  by (induction s rule: has_double_sep.induct) auto

lemma split_sep_no_sep: "s \<in> set (split_sep p) \<Longrightarrow> CHR ''/'' \<notin> set s"
proof (induction p arbitrary: s)
  case Nil
  then show ?case by simp
next
  case (Cons c cs)
  then show ?case by (auto split: if_splits list.splits)
qed

text \<open>A component that is kept: not empty, and without a separator.\<close>

lemma normalize_components_kept:
  assumes "\<forall>s \<in> set kept. s \<noteq> [] \<and> CHR ''/'' \<notin> set s"
    and "\<forall>s \<in> set rest. CHR ''/'' \<notin> set s"
  shows "\<forall>s \<in> set (normalize_components allow kept rest). s \<noteq> [] \<and> CHR ''/'' \<notin> set s"
  using assms
proof (induction rest arbitrary: kept)
  case Nil
  then show ?case by simp
next
  case (Cons s rest)
  have ih: "\<forall>x \<in> set (normalize_components allow k rest). x \<noteq> [] \<and> CHR ''/'' \<notin> set x"
    if "\<forall>x \<in> set k. x \<noteq> [] \<and> CHR ''/'' \<notin> set x" for k
    using Cons.IH [OF that] Cons.prems(2) by simp
  have same: "\<forall>x \<in> set (normalize_components allow kept rest). x \<noteq> [] \<and> CHR ''/'' \<notin> set x"
    by (rule ih) (rule Cons.prems(1))
  have pop: "\<forall>x \<in> set (normalize_components allow (tl kept) rest). x \<noteq> [] \<and> CHR ''/'' \<notin> set x"
    using Cons.prems(1) by (intro ih) (cases kept, simp_all)
  have up: "\<forall>x \<in> set (normalize_components allow (''..'' # kept) rest). x \<noteq> [] \<and> CHR ''/'' \<notin> set x"
    using Cons.prems(1) by (intro ih) simp
  have push: "\<forall>x \<in> set (normalize_components allow (s # kept) rest). x \<noteq> [] \<and> CHR ''/'' \<notin> set x"
    if "s \<noteq> []"
    using Cons.prems that by (intro ih) simp
  show ?case
  proof (cases "s = [] \<or> s = ''.''")
    case True
    with same show ?thesis by (simp only: normalize_components.simps if_True)
  next
    case False
    note not_dot = this
    show ?thesis
    proof (cases "s = ''..''")
      case True
      with same pop up show ?thesis
        by simp
    next
      case False
      with not_dot push show ?thesis
        by (simp only: normalize_components.simps if_False) blast
    qed
  qed
qed

lemma concat_with_sep_clean:
  assumes "\<forall>s \<in> set segs. s \<noteq> [] \<and> CHR ''/'' \<notin> set s" and "segs \<noteq> []"
  shows "concat_with_sep segs \<noteq> [] \<and> hd (concat_with_sep segs) \<noteq> CHR ''/'' \<and>
         last (concat_with_sep segs) \<noteq> CHR ''/'' \<and> \<not> has_double_sep (concat_with_sep segs)"
  using assms
proof (induction segs rule: concat_with_sep.induct)
  case 1
  then show ?case by simp
next
  case (2 s)
  then have s: "s \<noteq> []" "CHR ''/'' \<notin> set s" by simp_all
  from s have "hd s \<in> set s" "last s \<in> set s" by simp_all
  with s have "hd s \<noteq> CHR ''/''" "last s \<noteq> CHR ''/''" by metis+
  with s show ?case by (simp add: no_sep_no_double_sep)
next
  case (3 s r rest)
  then have ih: "concat_with_sep (r # rest) \<noteq> []"
      "hd (concat_with_sep (r # rest)) \<noteq> CHR ''/''"
      "last (concat_with_sep (r # rest)) \<noteq> CHR ''/''"
      "\<not> has_double_sep (concat_with_sep (r # rest))"
    by simp_all
  from "3.prems" have s: "s \<noteq> []" "CHR ''/'' \<notin> set s" by simp_all
  from s have "hd s \<in> set s" "last s \<in> set s" by simp_all
  with s have hl: "hd s \<noteq> CHR ''/''" "last s \<noteq> CHR ''/''" by metis+
  have a: "\<not> has_double_sep (CHR ''/'' # concat_with_sep (r # rest))"
    using ih by (cases "concat_with_sep (r # rest)") simp_all
  have b: "\<not> has_double_sep (s @ CHR ''/'' # concat_with_sep (r # rest))"
    by (rule has_double_sep_append [OF no_sep_no_double_sep [OF s(2)] a]) (simp add: hl)
  have c: "hd (s @ CHR ''/'' # concat_with_sep (r # rest)) \<noteq> CHR ''/''"
    using s(1) hl(1) by simp
  have d: "last (s @ CHR ''/'' # concat_with_sep (r # rest)) \<noteq> CHR ''/''"
    using ih by simp
  from b c d show ?case by simp
qed

lemma normalized_clean:
  assumes "q = concat_with_sep (normalize_components allow [] (split_sep p))" and "q \<noteq> []"
  shows "\<not> has_double_sep q \<and> \<not> has_double_sep (q @ ''/'') \<and>
         \<not> has_double_sep (CHR ''/'' # q) \<and> \<not> has_double_sep (CHR ''/'' # q @ ''/'')"
proof -
  have kept: "\<forall>s \<in> set (normalize_components allow [] (split_sep p)).
                s \<noteq> [] \<and> CHR ''/'' \<notin> set s"
    by (rule normalize_components_kept) (simp_all add: split_sep_no_sep)
  from assms have "normalize_components allow [] (split_sep p) \<noteq> []"
    by auto
  from concat_with_sep_clean [OF kept this]
  have q: "hd q \<noteq> CHR ''/''" "last q \<noteq> CHR ''/''" "\<not> has_double_sep q"
    by (simp_all add: assms(1))
  have q1: "\<not> has_double_sep (q @ ''/'')"
    by (rule has_double_sep_append [OF q(3)]) (simp_all add: q(2))
  have q2: "\<not> has_double_sep (CHR ''/'' # q)"
    using q(1,3) assms(2) by (cases q) simp_all
  have q3: "\<not> has_double_sep (CHR ''/'' # q @ ''/'')"
    using q(1) q1 assms(2) by (cases q) simp_all
  from q(3) q1 q2 q3 show ?thesis by blast
qed

lemma posix_normalize_no_double_sep: "\<not> has_double_sep (posix_normalize p)"
  using normalized_clean [OF refl, of True p] normalized_clean [OF refl, of False p]
  by (simp add: posix_normalize_def Let_def)

lemma posix_join_no_double_sep: "\<not> has_double_sep (posix_join segments)"
  by (simp add: posix_join_def Let_def posix_normalize_no_double_sep)

section \<open>The calls an invocation makes\<close>

lemma catch_block_calls:
  "set (snd (catch_block ld err t)) \<subseteq> set t \<union> {c. is_logger c}"
  by (auto simp: catch_block_def Let_def split: option.splits)

lemma read_and_parse_calls:
  "set (snd (read_and_parse P sp fs t)) \<subseteq> set t \<union> {ReadFile sp} \<union> range YamlParse"
  by (auto simp: read_and_parse_def split: sum.splits)

lemma yamlFileLoader_try_calls:
  "set (snd (yamlFileLoader_try P ld fs)) \<subseteq>
     {Stat (sourcePath ld), ReadFile (sourcePath ld)} \<union> range YamlParse"
  using read_and_parse_calls [of P "sourcePath ld" fs "[Stat (sourcePath ld)]"]
  by (auto simp: yamlFileLoader_try_def Let_def split: sum.splits)

lemma yamlFileLoader_v2_try_calls:
  "set (snd (yamlFileLoader_v2_try P ld fs t)) \<subseteq>
     set t \<union> {Stat (sourcePath ld), ReadFile (sourcePath ld)} \<union> range YamlParse \<union> {c. is_logger c}"
  using read_and_parse_calls [of P "sourcePath ld" fs "t @ [Stat (sourcePath ld)]"]
  by (auto simp: yamlFileLoader_v2_try_def Let_def split: sum.splits option.splits)

lemma yamlFileLoader_v2_try_catch_calls:
  "set (snd (yamlFileLoader_v2_try_catch P ld fs t)) \<subseteq>
     set t \<union> {Stat (sourcePath ld), ReadFile (sourcePath ld)} \<union> range YamlParse \<union> {c. is_logger c}"
proof (cases "yamlFileLoader_v2_try P ld fs t")
  case (Pair res t')
  with yamlFileLoader_v2_try_calls [of P ld fs t]
  have t': "set t' \<subseteq> set t \<union> {Stat (sourcePath ld), ReadFile (sourcePath ld)} \<union> range YamlParse
              \<union> {c. is_logger c}"
    by simp
  show ?thesis
  proof (cases res)
    case (Inl err)
    from t' catch_block_calls [of ld err t']
    have "set (snd (catch_block ld err t')) \<subseteq>
            set t \<union> {Stat (sourcePath ld), ReadFile (sourcePath ld)} \<union> range YamlParse
              \<union> {c. is_logger c}"
      by auto
    with Pair Inl show ?thesis
      by (simp add: yamlFileLoader_v2_try_catch_def)
  next
    case (Inr doc)
    with Pair t' show ?thesis
      by (simp add: yamlFileLoader_v2_try_catch_def)
  qed
qed

lemma yamlFileLoader_calls:
  "set (snd (yamlFileLoader P ld fs)) \<subseteq>
     {Stat (sourcePath ld), ReadFile (sourcePath ld)} \<union> range YamlParse \<union> {c. is_logger c}"
proof (cases "yamlFileLoader_try P ld fs")
  case (Pair res t)
  with yamlFileLoader_try_calls [of P ld fs]
  have t: "set t \<subseteq> {Stat (sourcePath ld), ReadFile (sourcePath ld)} \<union> range YamlParse"
    by simp
  show ?thesis
  proof (cases res)
    case (Inl err)
    from t catch_block_calls [of ld err t]
    have "set (snd (catch_block ld err t)) \<subseteq>
            {Stat (sourcePath ld), ReadFile (sourcePath ld)} \<union> range YamlParse
              \<union> {c. is_logger c}"
      by auto
    with Pair Inl show ?thesis
      by (simp add: yamlFileLoader_def)
  next
    case (Inr doc)
    with Pair t show ?thesis
      by (auto simp: yamlFileLoader_def)
  qed
qed

lemma yamlFileLoader_v2_calls:
  "set (snd (yamlFileLoader_v2 P ld fs)) \<subseteq>
     {ExistsSync (sourcePath ld), Stat (sourcePath ld), ReadFile (sourcePath ld)}
       \<union> range YamlParse \<union> {c. is_logger c}"
  using yamlFileLoader_v2_try_catch_calls [of P ld fs "[ExistsSync (sourcePath ld)]"]
    yamlFileLoader_v2_try_catch_calls [of P ld fs
      "[ExistsSync (sourcePath ld), Logger (Marker ''not exist'') (not_found_msg (sourcePath ld))]"]
  by (auto simp: yamlFileLoader_v2_def Let_def split: option.splits)

lemma yamlFileLoader_doc_calls:
  "set (snd (yamlFileLoader_doc P ld fs)) \<subseteq>
     {ExistsSync (sourcePath ld), Stat (sourcePath ld), ReadFile (sourcePath ld)}
       \<union> range YamlParse \<union> {c. is_logger c}"
  using yamlFileLoader_v2_try_catch_calls [of P ld fs "[ExistsSync (sourcePath ld)]"]
  by (auto simp: yamlFileLoader_doc_def Let_def split: option.splits)

lemma no_path_join_filter:
  assumes "set t \<subseteq> A \<union> range YamlParse \<union> {c. is_logger c}" and "\<forall>c \<in> A. \<not> is_path_join c"
  shows "filter is_path_join t = []"
proof -
  have "\<not> is_path_join c" if "c \<in> set t" for c
  proof -
    from that assms(1) have "c \<in> A \<or> c \<in> range YamlParse \<or> is_logger c" by blast
    with assms(2) show ?thesis by (cases c) auto
  qed
  then show ?thesis by (simp add: filter_empty_conv)
qed

lemma fs_calls_on_path:
  assumes "set t \<subseteq> {ExistsSync sp, Stat sp, ReadFile sp} \<union> range YamlParse \<union> {c. is_logger c}"
    and "c \<in> set t" and "fs_call c"
  shows "c \<in> {ExistsSync sp, Stat sp, ReadFile sp}"
proof -
  from assms(1,2) have "c \<in> {ExistsSync sp, Stat sp, ReadFile sp} \<or> c \<in> range YamlParse \<or> is_logger c"
    by blast
  with assms(3) show ?thesis by (cases c) auto
qed

text \<open>A series of invocations, for a step that hands the closure on unchanged.\<close>

lemma series_of_step:
  assumes step: "\<And>ld fs. f ld fs = (g ld fs, ld)"
    and one: "\<And>fs. Q (g ld fs)"
  shows "snd (invoke_all f ld views) = ld \<and> (\<forall>r \<in> set (fst (invoke_all f ld views)). Q r)"
  using one by (auto simp: invoke_all_step [of f g, OF step])

section \<open>The joined path\<close>

text \<open>
  C7. For every sequence of segments \<open>toks\<close> (empty or not), with \<open>sp\<close> the platform's
  join of \<open>toks\<close> in order and \<open>ld\<close> the closure that holds \<open>sp\<close> and the configuration:
  \<^item> the factories of \<^verbatim>\<open>part_000\<close> and of the documented copy return \<open>ld\<close>; the factory of
    \<^verbatim>\<open>yaml-loader.ts\<close> returns \<open>ld\<close> when the path exists, and never returns another
    closure;
  \<^item> each factory calls \<^verbatim>\<open>path.join\<close> exactly once, on \<open>toks\<close>;
  \<^item> in any series of later invocations of \<open>ld\<close>, on whatever filesystems, no invocation
    calls \<^verbatim>\<open>path.join\<close>, every filesystem call is on \<open>sp\<close>, and the closure at the end
    is \<open>ld\<close>, so \<^verbatim>\<open>sourcePath\<close> is still \<open>sp\<close>;
  \<^item> with the join of the platform section, the segments \<^verbatim>\<open>/a\<close>, \<^verbatim>\<open>b\<close>, \<^verbatim>\<open>config.yaml\<close>
    give \<^verbatim>\<open>/a/b/config.yaml\<close>, and no joined path holds two separators in a row.
\<close>

theorem sourcePath_joined_once:
  assumes "sp = path_join P toks"
    and "ld = \<lparr>throwOnError = throwOnError cfg, logger = logger cfg, sourcePath = sp\<rparr>"
  shows "fst (yamlLoader_v2 P cfg toks fs0) = Inr ld \<and>
         fst (yamlLoader_doc P cfg toks fs0) = Inr ld \<and>
         (existsSync fs0 sp \<longrightarrow> fst (yamlLoader P cfg toks fs0) = Inr ld) \<and>
         (\<forall>ld'. fst (yamlLoader P cfg toks fs0) = Inr ld' \<longrightarrow> ld' = ld) \<and>
         filter is_path_join (snd (yamlLoader P cfg toks fs0)) = [PathJoin toks] \<and>
         filter is_path_join (snd (yamlLoader_v2 P cfg toks fs0)) = [PathJoin toks] \<and>
         filter is_path_join (snd (yamlLoader_doc P cfg toks fs0)) = [PathJoin toks] \<and>
         (\<forall>step \<in> {yamlFileLoader_step P, yamlFileLoader_v2_step P, yamlFileLoader_doc_step P}.
            snd (invoke_all step ld later) = ld \<and>
            (\<forall>r \<in> set (fst (invoke_all step ld later)).
               filter is_path_join (snd r) = [] \<and>
               (\<forall>c \<in> set (snd r). fs_call c \<longrightarrow> c \<in> {ExistsSync sp, Stat sp, ReadFile sp}))) \<and>
         fst (yamlLoader_v2 (P\<lparr>path_join := posix_join\<rparr>) cfg [''/a'', ''b'', ''config.yaml''] fs0) =
           Inr \<lparr>throwOnError = throwOnError cfg, logger = logger cfg,
                 sourcePath = ''/a/b/config.yaml''\<rparr> \<and>
         \<not> has_double_sep (posix_join toks)"
proof -
  have sp: "sourcePath ld = sp"
    by (simp add: assms(2))
  have f2: "fst (yamlLoader_v2 P cfg toks fs0) = Inr ld"
    and fd: "fst (yamlLoader_doc P cfg toks fs0) = Inr ld"
    by (simp_all add: yamlLoader_v2_def yamlLoader_doc_def Let_def assms)
  have f1: "existsSync fs0 sp \<longrightarrow> fst (yamlLoader P cfg toks fs0) = Inr ld"
    by (simp add: yamlLoader_def Let_def assms)
  have f1': "\<forall>ld'. fst (yamlLoader P cfg toks fs0) = Inr ld' \<longrightarrow> ld' = ld"
    by (auto simp: yamlLoader_def Let_def assms split: if_splits option.splits)
  have j1: "filter is_path_join (snd (yamlLoader P cfg toks fs0)) = [PathJoin toks]"
    by (simp add: yamlLoader_def Let_def split: option.splits)
  have j2: "filter is_path_join (snd (yamlLoader_v2 P cfg toks fs0)) = [PathJoin toks]"
    by (simp add: yamlLoader_v2_def Let_def)
  have jd: "filter is_path_join (snd (yamlLoader_doc P cfg toks fs0)) = [PathJoin toks]"
    by (simp add: yamlLoader_doc_def Let_def)
  let ?Q = "\<lambda>r. filter is_path_join (snd r) = [] \<and>
               (\<forall>c \<in> set (snd r). fs_call c \<longrightarrow> c \<in> {ExistsSync sp, Stat sp, ReadFile sp})"
  have q1: "?Q (yamlFileLoader P ld fs)" for fs
  proof -
    have s: "set (snd (yamlFileLoader P ld fs)) \<subseteq>
               {ExistsSync sp, Stat sp, ReadFile sp} \<union> range YamlParse \<union> {c. is_logger c}"
      using yamlFileLoader_calls [of P ld fs] unfolding sp by blast
    have "filter is_path_join (snd (yamlFileLoader P ld fs)) = []"
      by (rule no_path_join_filter [OF s]) simp
    with fs_calls_on_path [OF s] show ?thesis by blast
  qed
  have q2: "?Q (yamlFileLoader_v2 P ld fs)" for fs
  proof -
    have s: "set (snd (yamlFileLoader_v2 P ld fs)) \<subseteq>
               {ExistsSync sp, Stat sp, ReadFile sp} \<union> range YamlParse \<union> {c. is_logger c}"
      using yamlFileLoader_v2_calls [of P ld fs] unfolding sp by blast
    have "filter is_path_join (snd (yamlFileLoader_v2 P ld fs)) = []"
      by (rule no_path_join_filter [OF s]) simp
    with fs_calls_on_path [OF s] show ?thesis by blast
  qed
  have qd: "?Q (yamlFileLoader_doc P ld fs)" for fs
  proof -
    have s: "set (snd (yamlFileLoader_doc P ld fs)) \<subseteq>
               {ExistsSync sp, Stat sp, ReadFile sp} \<union> range YamlParse \<union> {c. is_logger c}"
      using yamlFileLoader_doc_calls [of P ld fs] unfolding sp by blast
    have "filter is_path_join (snd (yamlFileLoader_doc P ld fs)) = []"
      by (rule no_path_join_filter [OF s]) simp
    with fs_calls_on_path [OF s] show ?thesis by blast
  qed
  have s1: "snd (invoke_all (yamlFileLoader_step P) ld later) = ld \<and>
            (\<forall>r \<in> set (fst (invoke_all (yamlFileLoader_step P) ld later)). ?Q r)"
  proof (rule series_of_step [where g = "yamlFileLoader P"])
    show "yamlFileLoader_step P ld' fs = (yamlFileLoader P ld' fs, ld')" for ld' fs
      by (simp add: yamlFileLoader_step_def)
    show "?Q (yamlFileLoader P ld fs)" for fs
      by (rule q1)
  qed
  have s2: "snd (invoke_all (yamlFileLoader_v2_step P) ld later) = ld \<and>
            (\<forall>r \<in> set (fst (invoke_all (yamlFileLoader_v2_step P) ld later)). ?Q r)"
  proof (rule series_of_step [where g = "yamlFileLoader_v2 P"])
    show "yamlFileLoader_v2_step P ld' fs = (yamlFileLoader_v2 P ld' fs, ld')" for ld' fs
      by (simp add: yamlFileLoader_v2_step_def)
    show "?Q (yamlFileLoader_v2 P ld fs)" for fs
      by (rule q2)
  qed
  have sd: "snd (invoke_all (yamlFileLoader_doc_step P) ld later) = ld \<and>
            (\<forall>r \<in> set (fst (invoke_all (yamlFileLoader_doc_step P) ld later)). ?Q r)"
  proof (rule series_of_step [where g = "yamlFileLoader_doc P"])
    show "yamlFileLoader_doc_step P ld' fs = (yamlFileLoader_doc P ld' fs, ld')" for ld' fs
      by (simp add: yamlFileLoader_doc_step_def)
    show "?Q (yamlFileLoader_doc P ld fs)" for fs
      by (rule qd)
  qed
  have ex: "fst (yamlLoader_v2 (P\<lparr>path_join := posix_join\<rparr>) cfg [''/a'', ''b'', ''config.yaml''] fs0) =
           Inr \<lparr>throwOnError = throwOnError cfg, logger = logger cfg,
                 sourcePath = ''/a/b/config.yaml''\<rparr>"
    by (simp add: yamlLoader_v2_def Let_def posix_join_example)
  from s1 s2 sd
  have series: "\<forall>step \<in> {yamlFileLoader_step P, yamlFileLoader_v2_step P, yamlFileLoader_doc_step P}.
            snd (invoke_all step ld later) = ld \<and>
            (\<forall>r \<in> set (fst (invoke_all step ld later)). ?Q r)"
    by blast
  from f2 fd f1 f1' j1 j2 jd series ex posix_join_no_double_sep [of toks]
  show ?thesis by blast
qed

text \<open>
  The segments \<^verbatim>\<open>/a\<close>, \<^verbatim>\<open>b\<close>, \<^verbatim>\<open>config.yaml\<close> of the spec through the factory of
  \<^verbatim>\<open>part_000\<close>, followed by two invocations; and the factory of \<^verbatim>\<open>yaml-loader.ts\<close> on the
  existing \<^verbatim>\<open>test.yaml\<close>.
\<close>

theorem sourcePath_joined_once_witness:
  "fst (yamlLoader_v2 fixture_platform \<lparr>throwOnError = Some False, logger = None\<rparr>
          [''/a'', ''b'', ''config.yaml''] fixture_fs) =
     Inr \<lparr>throwOnError = Some False, logger = None, sourcePath = ''/a/b/config.yaml''\<rparr> \<and>
   snd (invoke_all (yamlFileLoader_v2_step fixture_platform)
          \<lparr>throwOnError = Some False, logger = None, sourcePath = ''/a/b/config.yaml''\<rparr>
          [fixture_fs, fixture_fs_removed]) =
     \<lparr>throwOnError = Some False, logger = None, sourcePath = ''/a/b/config.yaml''\<rparr> \<and>
   filter is_path_join (snd (yamlLoader fixture_platform \<lparr>throwOnError = Some True, logger = None\<rparr>
                               [''/t'', ''test.yaml''] fixture_fs)) =
     [PathJoin [''/t'', ''test.yaml'']] \<and>
   fst (yamlLoader fixture_platform \<lparr>throwOnError = Some True, logger = None\<rparr>
          [''/t'', ''test.yaml''] fixture_fs) =
     Inr \<lparr>throwOnError = Some True, logger = None, sourcePath = ''/t/test.yaml''\<rparr>"
proof -
  have p: "''/a/b/config.yaml'' = path_join fixture_platform [''/a'', ''b'', ''config.yaml'']"
    by (simp add: fixture_platform_def posix_defs)
  have l: "\<lparr>throwOnError = Some False, logger = None, sourcePath = ''/a/b/config.yaml''\<rparr> =
           \<lparr>throwOnError = throwOnError \<lparr>throwOnError = Some False, logger = None\<rparr>,
             logger = logger \<lparr>throwOnError = Some False, logger = None\<rparr>,
             sourcePath = ''/a/b/config.yaml''\<rparr>"
    by simp
  note w = sourcePath_joined_once [OF p l, of fixture_fs "[fixture_fs, fixture_fs_removed]"]
  from w have a: "fst (yamlLoader_v2 fixture_platform \<lparr>throwOnError = Some False, logger = None\<rparr>
          [''/a'', ''b'', ''config.yaml''] fixture_fs) =
     Inr \<lparr>throwOnError = Some False, logger = None, sourcePath = ''/a/b/config.yaml''\<rparr>"
    by (rule conjunct1)
  from w have b: "snd (invoke_all (yamlFileLoader_v2_step fixture_platform)
          \<lparr>throwOnError = Some False, logger = None, sourcePath = ''/a/b/config.yaml''\<rparr>
          [fixture_fs, fixture_fs_removed]) =
     \<lparr>throwOnError = Some False, logger = None, sourcePath = ''/a/b/config.yaml''\<rparr>"
    by blast
  have p': "''/t/test.yaml'' = path_join fixture_platform [''/t'', ''test.yaml'']"
    by (simp add: fixture_platform_def posix_defs)
  have l': "\<lparr>throwOnError = Some True, logger = None, sourcePath = ''/t/test.yaml''\<rparr> =
           \<lparr>throwOnError = throwOnError \<lparr>throwOnError = Some True, logger = None\<rparr>,
             logger = logger \<lparr>throwOnError = Some True, logger = None\<rparr>,
             sourcePath = ''/t/test.yaml''\<rparr>"
    by simp
  have x: "existsSync fixture_fs ''/t/test.yaml''"
    by (simp add: fixture_defs)
  note w' = sourcePath_joined_once [OF p' l', of fixture_fs "[]"]
  from w' have c: "filter is_path_join (snd (yamlLoader fixture_platform
                               \<lparr>throwOnError = Some True, logger = None\<rparr>
                               [''/t'', ''test.yaml''] fixture_fs)) =
     [PathJoin [''/t'', ''test.yaml'']]"
    by blast
  from w' x have d: "fst (yamlLoader fixture_platform \<lparr>throwOnError = Some True, logger = None\<rparr>
          [''/t'', ''test.yaml''] fixture_fs) =
     Inr \<lparr>throwOnError = Some True, logger = None, sourcePath = ''/t/test.yaml''\<rparr>"
    by blast
  from a b c d show ?thesis by blast
qed

section \<open>Repeated invocations\<close>








section \<open>No writes\<close>

text \<open>
  C9. Whatever the outcome, every call an invocation makes is a filesystem query
  (\<^verbatim>\<open>existsSync\<close>, \<^verbatim>\<open>stat\<close> or \<^verbatim>\<open>readFile\<close>, on \<^verbatim>\<open>sourcePath\<close>), the parser, or the logger:
  no call mutates the filesystem. This holds in all three versions and for every logger,
  returning or throwing. (That the three queries leave the filesystem as it is is Node's
  contract for them, not a property of this module.)
\<close>

theorem invocation_only_reads:
  "\<forall>c \<in> set (snd (yamlFileLoader P ld fs)) \<union> set (snd (yamlFileLoader_v2 P ld fs))
          \<union> set (snd (yamlFileLoader_doc P ld fs)).
      \<not> fs_mutation c \<and>
      (fs_call c \<longrightarrow>
         c \<in> {ExistsSync (sourcePath ld), Stat (sourcePath ld), ReadFile (sourcePath ld)}) \<and>
      (fs_call c \<or> is_logger c \<or> c \<in> range YamlParse)"
proof
  fix c
  assume "c \<in> set (snd (yamlFileLoader P ld fs)) \<union> set (snd (yamlFileLoader_v2 P ld fs))
            \<union> set (snd (yamlFileLoader_doc P ld fs))"
  with yamlFileLoader_calls [of P ld fs] yamlFileLoader_v2_calls [of P ld fs]
    yamlFileLoader_doc_calls [of P ld fs]
  have "c \<in> {ExistsSync (sourcePath ld), Stat (sourcePath ld), ReadFile (sourcePath ld)} \<or>
        c \<in> range YamlParse \<or> is_logger c"
    by blast
  then show "\<not> fs_mutation c \<and>
      (fs_call c \<longrightarrow>
         c \<in> {ExistsSync (sourcePath ld), Stat (sourcePath ld), ReadFile (sourcePath ld)}) \<and>
      (fs_call c \<or> is_logger c \<or> c \<in> range YamlParse)"
    by (cases c) auto
qed

text \<open>A suppressed failure (the directory) and a success (\<^verbatim>\<open>test.yaml\<close>).\<close>

theorem invocation_only_reads_witness:
  "list_all (\<lambda>c. \<not> fs_mutation c)
     (snd (yamlFileLoader_v2 fixture_platform
             \<lparr>throwOnError = Some False, logger = None, sourcePath = ''/t''\<rparr> fixture_fs)) \<and>
   list_all (\<lambda>c. \<not> fs_mutation c)
     (snd (yamlFileLoader_doc fixture_platform
             \<lparr>throwOnError = Some False, logger = Some failing_logger, sourcePath = ''/t''\<rparr> fixture_fs)) \<and>
   list_all (\<lambda>c. \<not> fs_mutation c)
     (snd (yamlFileLoader fixture_platform
             \<lparr>throwOnError = Some True, logger = None, sourcePath = ''/t/test.yaml''\<rparr> fixture_fs))"
  using invocation_only_reads [of fixture_platform
      "\<lparr>throwOnError = Some False, logger = None, sourcePath = ''/t''\<rparr>" fixture_fs]
    invocation_only_reads [of fixture_platform
      "\<lparr>throwOnError = Some False, logger = Some failing_logger, sourcePath = ''/t''\<rparr>" fixture_fs]
    invocation_only_reads [of fixture_platform
      "\<lparr>throwOnError = Some True, logger = None, sourcePath = ''/t/test.yaml''\<rparr>" fixture_fs]
  by (simp add: list_all_iff)

section \<open>No validation of the parse result\<close>

text \<open>
  C10. On an existing regular file whose text the parser accepts, the invocation resolves
  with the parser's result \<open>v\<close> as it is, whatever \<open>v\<close>, \<^verbatim>\<open>throwOnError\<close> and the logger
  are, in all three versions: the result is \<^verbatim>\<open>{}\<close> only if the parser returned \<^verbatim>\<open>{}\<close>. So
  the \<^verbatim>\<open>undefined\<close> of an empty file differs from the \<^verbatim>\<open>{}\<close> of a suppressed failure.
\<close>

theorem parse_result_passed_through:
  assumes "existsSync fs (sourcePath ld)"
    and "stat fs (sourcePath ld) = Inr st" and "isFile st"
    and "readFile fs (sourcePath ld) = Inr content"
    and "yaml_load P content = Inr v"
  shows "fst (yamlFileLoader P ld fs) = Inr v \<and>
         fst (yamlFileLoader_v2 P ld fs) = Inr v \<and>
         fst (yamlFileLoader_doc P ld fs) = Inr v \<and>
         (fst (yamlFileLoader P ld fs) = Inr (YMap [])) = (v = YMap []) \<and>
         (fst (yamlFileLoader_v2 P ld fs) = Inr (YMap [])) = (v = YMap []) \<and>
         (fst (yamlFileLoader_doc P ld fs) = Inr (YMap [])) = (v = YMap [])"
  using assms
  by (simp add: yamlFileLoader_regular yamlFileLoader_v2_regular yamlFileLoader_doc_existing)

text \<open>The empty file.\<close>

theorem parse_result_passed_through_witness:
  "fst (yamlFileLoader fixture_platform
          \<lparr>throwOnError = Some True, logger = None, sourcePath = ''/t/empty.yaml''\<rparr> fixture_fs)
     = Inr YUndefined \<and>
   fst (yamlFileLoader_v2 fixture_platform
          \<lparr>throwOnError = Some False, logger = None, sourcePath = ''/t/empty.yaml''\<rparr> fixture_fs)
     = Inr YUndefined \<and>
   fst (yamlFileLoader_doc fixture_platform
          \<lparr>throwOnError = Some False, logger = None, sourcePath = ''/t/empty.yaml''\<rparr> fixture_fs)
     = Inr YUndefined \<and>
   fst (yamlFileLoader_v2 fixture_platform
          \<lparr>throwOnError = Some False, logger = None, sourcePath = ''/t/empty.yaml''\<rparr> fixture_fs)
     \<noteq> Inr (YMap [])"
proof -
  have e: "existsSync fixture_fs ''/t/empty.yaml''"
    and s: "stat fixture_fs ''/t/empty.yaml'' = Inr (Stats True)"
    and r: "readFile fixture_fs ''/t/empty.yaml'' = Inr []"
    and y: "yaml_load fixture_platform [] = Inr YUndefined"
    by (simp_all add: fixture_defs)
  show ?thesis
    using parse_result_passed_through [of fixture_fs
        "\<lparr>throwOnError = Some True, logger = None, sourcePath = ''/t/empty.yaml''\<rparr>" "Stats True" "[]"
        fixture_platform YUndefined]
      parse_result_passed_through [of fixture_fs
        "\<lparr>throwOnError = Some False, logger = None, sourcePath = ''/t/empty.yaml''\<rparr>" "Stats True" "[]"
        fixture_platform YUndefined]
      e s r y by simp
qed

end
